theory Spec2Isabelle
  imports Main
begin

section \<open>Python primitives used by the views\<close>

text \<open>
  Strings are lists of 8-bit characters, read as the code points below 256. Python
  integers are unbounded, hence \<open>int\<close>. \<open>isspace\<close> is the set of code points below 256
  that \<open>str.strip()\<close> removes: the ASCII white space, the four separators U+001C to
  U+001F, U+0085 and U+00A0.
\<close>

definition isspace :: "char \<Rightarrow> bool" where
  "isspace c =
     (c \<in> set [CHR 0x09, CHR 0x0A, CHR 0x0B, CHR 0x0C, CHR 0x0D, CHR 0x1C, CHR 0x1D,
                CHR 0x1E, CHR 0x1F, CHR 0x20, CHR 0x85, CHR 0xA0])"

definition strip :: "string \<Rightarrow> string" where
  "strip s = rev (dropWhile isspace (rev (dropWhile isspace s)))"

text \<open>
  \<open>a, b = val.split("-", 1)\<close>: the string is cut at its first separator; with no
  separator the unpacking raises \<open>ValueError\<close>, which is \<open>None\<close> here.
\<close>

fun split_once :: "char \<Rightarrow> string \<Rightarrow> (string \<times> string) option" where
  "split_once sep [] = None"
| "split_once sep (c # cs) =
     (if c = sep then Some ([], cs)
      else (case split_once sep cs of
              None \<Rightarrow> None
            | Some (a, b) \<Rightarrow> Some (c # a, b)))"

definition is_digit :: "char \<Rightarrow> bool" where
  "is_digit c = (c \<in> set ''0123456789'')"

text \<open>The position of a character in a string (its length when it is absent).\<close>

fun index_of :: "'a \<Rightarrow> 'a list \<Rightarrow> nat" where
  "index_of x [] = 0"
| "index_of x (y # ys) = (if x = y then 0 else Suc (index_of x ys))"

definition digit_val :: "char \<Rightarrow> nat" where
  "digit_val c = index_of c ''0123456789''"

text \<open>
  The digits of \<open>int(s)\<close>: decimal digits, a single underscore allowed between two
  digits. The flag says that the previous character was a digit.
\<close>

fun parse_digits :: "nat \<Rightarrow> bool \<Rightarrow> string \<Rightarrow> nat option" where
  "parse_digits acc prev [] = (if prev then Some acc else None)"
| "parse_digits acc prev (c # cs) =
     (if is_digit c then parse_digits (10 * acc + digit_val c) True cs
      else if c = CHR ''_'' \<and> prev then parse_digits acc False cs
      else None)"

text \<open>
  \<open>int(s)\<close> of a string; \<open>None\<close> stands for \<open>ValueError\<close>. \<open>int\<close> skips less white
  space around the number than \<open>str.strip()\<close> removes: the ASCII white space U+0009 to
  U+000D and U+0020, and U+0085 and U+00A0, but not the separators U+001C to U+001F.
  After an optional sign come the digits; a number of more than 4300 digits is refused
  (the interpreter's default limit on integer string conversion).
\<close>

definition int_space :: "char \<Rightarrow> bool" where
  "int_space c =
     (c \<in> set [CHR 0x09, CHR 0x0A, CHR 0x0B, CHR 0x0C, CHR 0x0D, CHR 0x20, CHR 0x85,
                CHR 0xA0])"

definition max_str_digits :: nat where
  "max_str_digits = 4300"

definition py_int :: "string \<Rightarrow> int option" where
  "py_int s =
     (case rev (dropWhile int_space (rev (dropWhile int_space s))) of
        [] \<Rightarrow> None
      | c # cs \<Rightarrow>
          let negative = (c = CHR ''-'');
              body = (if c = CHR ''-'' \<or> c = CHR ''+'' then cs else c # cs)
          in if max_str_digits < length (filter is_digit body) then None
             else map_option (\<lambda>n. if negative then - int n else int n)
                    (parse_digits 0 False body))"

definition digit_char :: "nat \<Rightarrow> char" where
  "digit_char n = ''0123456789'' ! n"

text \<open>\<open>str(n)\<close> of an integer, as an f-string renders it.\<close>

fun show_nat :: "nat \<Rightarrow> string" where
  "show_nat n =
     (if n < 10 then [digit_char n] else show_nat (n div 10) @ [digit_char (n mod 10)])"

declare show_nat.simps [simp del]

definition show_int :: "int \<Rightarrow> string" where
  "show_int i = (if i < 0 then CHR ''-'' # show_nat (nat (- i)) else show_nat (nat i))"

text \<open>A \<open>datetime.time\<close> is its hour and minute; \<open>strftime("%H%M")\<close> pads each to two digits.\<close>

type_synonym time = "nat \<times> nat"

definition two_digits :: "nat \<Rightarrow> string" where
  "two_digits n = [digit_char ((n div 10) mod 10), digit_char (n mod 10)]"

definition strftime_HM :: "time \<Rightarrow> string" where
  "strftime_HM t = two_digits (fst t) @ two_digits (snd t)"

text \<open>
  A \<open>QueryDict\<close> is the list of the submitted (name, value) pairs: \<open>getlist\<close> gives every
  value of a name, \<open>get\<close> the last one or the default.
\<close>

type_synonym querydict = "(string \<times> string) list"

definition getlist :: "string \<Rightarrow> querydict \<Rightarrow> string list" where
  "getlist k qd = map snd (filter (\<lambda>kv. fst kv = k) qd)"

definition qd_get :: "string \<Rightarrow> querydict \<Rightarrow> string option" where
  "qd_get k qd = (case getlist k qd of [] \<Rightarrow> None | v # vs \<Rightarrow> Some (last (v # vs)))"

definition qd_get_default :: "string \<Rightarrow> string \<Rightarrow> querydict \<Rightarrow> string" where
  "qd_get_default k d qd = (case qd_get k qd of None \<Rightarrow> d | Some v \<Rightarrow> v)"

section \<open>The data model of lessons/models.py\<close>

text \<open>
  A \<open>Timetable\<close> row with its primary key and the class groups of its many-to-many
  relation, in the order of the relation table.
\<close>

record timetable =
  tt_pk :: int
  tt_subject_fk_id :: "int option"
  tt_teacher_id :: int
  tt_day :: string
  tt_start_time :: time
  tt_end_time :: time
  tt_class_groups :: "int list"

text \<open>
  The tables the builders read and write: the primary keys of \<open>ClassGroup\<close>, \<open>Subject\<close>
  and \<open>Teacher\<close> in query order, the \<open>JointSubject\<close> rows (subject id, active), the
  \<open>JointClassGroupSet\<close> rows (name, class group ids, active), the \<open>Timetable\<close> rows in
  query order, and the next primary key the \<open>Timetable\<close> table hands out.
\<close>

record db =
  class_group_tbl :: "int list"
  subject_tbl :: "int list"
  teacher_tbl :: "int list"
  joint_subject_tbl :: "(int \<times> bool) list"
  joint_set_tbl :: "(string \<times> int list \<times> bool) list"
  timetable_tbl :: "timetable list"
  next_pk :: int

datatype http_method = GET | POST

record request =
  req_method :: http_method
  req_GET :: querydict
  req_POST :: querydict

datatype exn = IntegrityError

section \<open>The fixed structures\<close>

definition fixed_timetable_structure :: "string list \<times> (time \<times> time) list" where
  "fixed_timetable_structure =
     ([''Mon'', ''Tue'', ''Wed'', ''Thu'', ''Fri''],
      [((8, 0), (8, 40)),
       ((8, 40), (9, 20)),
       ((9, 40), (10, 20)),
       ((10, 20), (11, 0)),
       ((11, 10), (11, 50)),
       ((11, 50), (12, 30)),
       ((14, 20), (15, 0)),
       ((15, 0), (15, 40)),
       ((15, 40), (16, 20))])"

definition fixed_remedial_structure :: "string list \<times> (time \<times> time) list" where
  "fixed_remedial_structure =
     ([''Mon'', ''Tue'', ''Wed'', ''Thu'', ''Fri'', ''Sat''],
      [((16, 30), (17, 30)),
       ((19, 0), (20, 0)),
       ((13, 30), (14, 20)),
       ((7, 0), (8, 0)),
       ((8, 0), (9, 0)),
       ((9, 0), (10, 0))])"

section \<open>The grid of a builder\<close>

text \<open>
  Both builders run the same nested loops over the selected class groups, the days, the
  slots and the sub-indices 1, 2, 3. A cell is one iteration: class group id, day,
  start, end, sub-index. \<open>grid_cells\<close> lists the cells in the order of the loops.
\<close>

type_synonym cell = "int \<times> string \<times> time \<times> time \<times> int"

definition grid_cells :: "int list \<Rightarrow> string list \<Rightarrow> (time \<times> time) list \<Rightarrow> cell list" where
  "grid_cells cgs days slots =
     concat (map (\<lambda>cg.
       concat (map (\<lambda>d.
         concat (map (\<lambda>(st, et).
           map (\<lambda>idx. (cg, d, st, et, idx)) [1, 2, 3]) slots)) days)) cgs)"

definition field_name :: "cell \<Rightarrow> string" where
  "field_name c =
     (case c of (cg, d, st, et, idx) \<Rightarrow>
        ''cell_'' @ show_int cg @ ''_'' @ d @ ''_'' @ strftime_HM st @ ''_'' @
        strftime_HM et @ ''_'' @ show_int idx)"

text \<open>\<open>request.POST.get(field_name, "").strip()\<close>\<close>

definition cell_val :: "querydict \<Rightarrow> cell \<Rightarrow> string" where
  "cell_val post c = strip (qd_get_default (field_name c) [] post)"

text \<open>
  The \<open>try\<close> block that decodes a cell: \<open>None\<close> is the \<open>except (ValueError, TypeError)\<close>
  branch, \<open>Some (subj_id, teacher_id)\<close> the decoded pair.
\<close>

definition parse_val :: "string \<Rightarrow> (int \<times> int) option" where
  "parse_val v =
     (case split_once CHR ''-'' v of
        None \<Rightarrow> None
      | Some (subj_id_str, teacher_id_str) \<Rightarrow>
          (case py_int subj_id_str of
             None \<Rightarrow> None
           | Some subj_id \<Rightarrow>
               (case py_int teacher_id_str of
                  None \<Rightarrow> None
                | Some teacher_id \<Rightarrow> Some (subj_id, teacher_id))))"

definition invalid_selection_msg :: string where
  "invalid_selection_msg = ''Invalid subject/teacher selection received.''"

section \<open>Validation of a submitted grid\<close>

text \<open>
  A \<open>defaultdict(set)\<close> is an association list in insertion order whose values are
  lists without repetition: \<open>d[k].add(v)\<close> is \<open>dd_add k v d\<close>, \<open>len\<close> of a value its
  length.
\<close>

fun dd_add :: "'k \<Rightarrow> 'v \<Rightarrow> ('k \<times> 'v list) list \<Rightarrow> ('k \<times> 'v list) list" where
  "dd_add k v [] = [(k, [v])]"
| "dd_add k v ((k', vs) # rest) =
     (if k = k' then (k', List.insert v vs) # rest else (k', vs) # dd_add k v rest)"

type_synonym block_key = "int \<times> string \<times> time \<times> time \<times> int"
type_synonym slot_key = "int \<times> string \<times> time \<times> time"

record vstate =
  v_error_message :: "string option"
  v_block_classes :: "(block_key \<times> int list) list"
  v_block_subjects :: "(slot_key \<times> int list) list"

text \<open>The body of the innermost validation loop, for one cell.\<close>

definition validate_cell :: "querydict \<Rightarrow> cell \<Rightarrow> vstate \<Rightarrow> vstate" where
  "validate_cell post c vs =
     (case c of (cg, d, st, et, idx) \<Rightarrow>
        let v = cell_val post c in
        if v = [] then vs
        else (case parse_val v of
                None \<Rightarrow> vs\<lparr>v_error_message := Some invalid_selection_msg\<rparr>
              | Some (subj_id, teacher_id) \<Rightarrow>
                  vs\<lparr>v_block_classes :=
                         dd_add (teacher_id, d, st, et, subj_id) cg (v_block_classes vs),
                     v_block_subjects :=
                         dd_add (teacher_id, d, st, et) subj_id (v_block_subjects vs)\<rparr>))"

definition collect_blocks :: "querydict \<Rightarrow> cell list \<Rightarrow> vstate" where
  "collect_blocks post cells =
     fold (validate_cell post) cells
       \<lparr>v_error_message = None, v_block_classes = [], v_block_subjects = []\<rparr>"

text \<open>The loop over \<open>block_subjects.items()\<close>, left at the first slot with two subjects.\<close>

fun check_block_subjects :: "string \<Rightarrow> (slot_key \<times> int list) list \<Rightarrow> string option" where
  "check_block_subjects msg [] = None"
| "check_block_subjects msg ((k, subj_ids) # rest) =
     (if length subj_ids > 1 then Some msg else check_block_subjects msg rest)"

definition joint_subject_ids :: "db \<Rightarrow> int list" where
  "joint_subject_ids s = map fst (filter snd (joint_subject_tbl s))"

text \<open>
  \<open>class_to_tag\<close>: every active set, in query order, writes its name at each of its class
  groups; a later set overwrites an earlier one.
\<close>

definition class_to_tag :: "db \<Rightarrow> int \<Rightarrow> string option" where
  "class_to_tag s =
     fold (\<lambda>(name, ids, active) m. fold (\<lambda>cid m'. m'(cid \<mapsto> name)) ids m)
       (filter (\<lambda>(name, ids, active). active) (joint_set_tbl s)) Map.empty"

definition not_joint_subject_msg :: string where
  "not_joint_subject_msg =
     ''Cannot assign this teacher to multiple classes at the same time '' @
     ''unless the subject is configured as a joint subject.''"

definition not_joint_group_msg :: string where
  "not_joint_group_msg =
     ''These classes are not configured as a single joint class group for this '' @
     ''subject and time. Please configure a JointClassGroupSet or select fewer '' @
     ''classes.''"

text \<open>The loop over \<open>block_classes.items()\<close>, left at the first block that is refused.\<close>

fun check_block_classes ::
  "int list \<Rightarrow> (int \<Rightarrow> string option) \<Rightarrow> (block_key \<times> int list) list \<Rightarrow> string option" where
  "check_block_classes jsubj tag [] = None"
| "check_block_classes jsubj tag ((k, class_ids) # rest) =
     (case k of (teacher_id, d, st, et, subj_id) \<Rightarrow>
        if length class_ids \<le> 1 then check_block_classes jsubj tag rest
        else if subj_id \<notin> set jsubj then Some not_joint_subject_msg
        else (let tags = remdups (map tag class_ids)
              in if length tags \<noteq> 1 \<or> None \<in> set tags then Some not_joint_group_msg
                 else check_block_classes jsubj tag rest))"

text \<open>
  The whole pre-validation of the \<open>save\<close> action: the error message it leaves, \<open>None\<close>
  when the grid is accepted. \<open>slot_msg\<close> is the message for two subjects in one slot,
  which differs between the two builders.
\<close>

definition validate :: "string \<Rightarrow> querydict \<Rightarrow> cell list \<Rightarrow> db \<Rightarrow> string option" where
  "validate slot_msg post cells s =
     (let vs = collect_blocks post cells;
          e1 = v_error_message vs;
          e2 = (if e1 = None then check_block_subjects slot_msg (v_block_subjects vs) else e1);
          e3 = (if e2 = None
                then check_block_classes (joint_subject_ids s) (class_to_tag s)
                       (v_block_classes vs)
                else e2)
      in e3)"

section \<open>Replace and persist\<close>

definition in_scope :: "string list \<Rightarrow> (time \<times> time) list \<Rightarrow> timetable \<Rightarrow> bool" where
  "in_scope days slots r = (tt_day r \<in> set days \<and> tt_start_time r \<in> set (map fst slots))"

text \<open>
  \<open>Timetable.objects.filter(class_groups=cg, day__in=days, start_time__in=[...]).delete()\<close>
  removes every row that has \<open>cg\<close> among its class groups and lies in the scope.
\<close>

definition delete_for :: "string list \<Rightarrow> (time \<times> time) list \<Rightarrow> int \<Rightarrow> db \<Rightarrow> db" where
  "delete_for days slots cg s =
     s\<lparr>timetable_tbl :=
          filter (\<lambda>r. \<not> (cg \<in> set (tt_class_groups r) \<and> in_scope days slots r))
            (timetable_tbl s)\<rparr>"

definition clear_rows :: "string list \<Rightarrow> (time \<times> time) list \<Rightarrow> int list \<Rightarrow> db \<Rightarrow> db" where
  "clear_rows days slots cgs s = fold (delete_for days slots) cgs s"

text \<open>
  \<open>Timetable.objects.create(...)\<close> inserts a row with no class group yet. The two foreign
  keys of the model are checked by the database: a subject or teacher id that is no row
  of its table raises \<open>IntegrityError\<close>.
\<close>

definition Timetable_create ::
  "int \<Rightarrow> int \<Rightarrow> string \<Rightarrow> time \<Rightarrow> time \<Rightarrow> db \<Rightarrow> exn + (int \<times> db)" where
  "Timetable_create subj_id teacher_id d st et s =
     (if subj_id \<in> set (subject_tbl s) \<and> teacher_id \<in> set (teacher_tbl s)
      then Inr (next_pk s,
             s\<lparr>timetable_tbl := timetable_tbl s @
                  [\<lparr>tt_pk = next_pk s, tt_subject_fk_id = Some subj_id,
                    tt_teacher_id = teacher_id, tt_day = d, tt_start_time = st,
                    tt_end_time = et, tt_class_groups = []\<rparr>],
               next_pk := next_pk s + 1\<rparr>)
      else Inl IntegrityError)"

text \<open>\<open>tt.class_groups.add(cg)\<close> on the row with primary key \<open>pk\<close>.\<close>

definition class_groups_add :: "int \<Rightarrow> int \<Rightarrow> db \<Rightarrow> db" where
  "class_groups_add pk cg s =
     s\<lparr>timetable_tbl :=
          map (\<lambda>r. if tt_pk r = pk \<and> cg \<notin> set (tt_class_groups r)
                    then r\<lparr>tt_class_groups := tt_class_groups r @ [cg]\<rparr> else r)
            (timetable_tbl s)\<rparr>"

type_synonym created_key = "int \<times> string \<times> time \<times> time \<times> int \<times> int"

record cstate =
  c_error_message :: "string option"
  c_created_keys :: "created_key list"
  c_db :: db

text \<open>
  The body of the innermost creation loop, for one cell. The first component is the
  exception that leaves the view, if any; the state holds what was written before it.
\<close>

definition create_cell :: "querydict \<Rightarrow> cell \<Rightarrow> cstate \<Rightarrow> exn option \<times> cstate" where
  "create_cell post c cs =
     (case c of (cg, d, st, et, idx) \<Rightarrow>
        let v = cell_val post c in
        if v = [] then (None, cs)
        else (case parse_val v of
                None \<Rightarrow> (None, cs\<lparr>c_error_message := Some invalid_selection_msg\<rparr>)
              | Some (subj_id, teacher_id) \<Rightarrow>
                  let k = (cg, d, st, et, subj_id, teacher_id) in
                  if k \<in> set (c_created_keys cs) then (None, cs)
                  else (let cs1 = cs\<lparr>c_created_keys := k # c_created_keys cs\<rparr>
                        in case Timetable_create subj_id teacher_id d st et (c_db cs1) of
                             Inl e \<Rightarrow> (Some e, cs1)
                           | Inr (pk, s1) \<Rightarrow>
                               (None, cs1\<lparr>c_db := class_groups_add pk cg s1\<rparr>))))"

fun create_cells :: "querydict \<Rightarrow> cell list \<Rightarrow> cstate \<Rightarrow> exn option \<times> cstate" where
  "create_cells post [] cs = (None, cs)"
| "create_cells post (c # rest) cs =
     (case create_cell post c cs of
        (Some e, cs1) \<Rightarrow> (Some e, cs1)
      | (None, cs1) \<Rightarrow> create_cells post rest cs1)"

text \<open>
  The \<open>save\<close> action: the exception that leaves the view (if any), the error message and
  the database afterwards.
\<close>

definition save_action ::
  "string \<Rightarrow> string list \<Rightarrow> (time \<times> time) list \<Rightarrow> int list \<Rightarrow> querydict \<Rightarrow> db \<Rightarrow>
   exn option \<times> string option \<times> db" where
  "save_action slot_msg days slots cgs post s =
     (let cells = grid_cells cgs days slots;
          error_message = validate slot_msg post cells s
      in if error_message \<noteq> None then (None, error_message, s)
         else (case create_cells post cells
                      \<lparr>c_error_message = error_message, c_created_keys = [],
                       c_db = clear_rows days slots cgs s\<rparr> of
                 (raised, cs) \<Rightarrow> (raised, c_error_message cs, c_db cs)))"

section \<open>The current selection map\<close>

text \<open>
  \<open>Timetable.objects.filter(class_groups__in=class_groups, day__in=..., start_time__in=...)\<close>
  joins the relation table: a row comes once for each of its class groups that is in
  \<open>class_groups\<close>. No ordering is declared; rows come in table order here.
\<close>

definition rows_for :: "string list \<Rightarrow> (time \<times> time) list \<Rightarrow> int list \<Rightarrow> db \<Rightarrow> timetable list" where
  "rows_for days slots cgs s =
     concat (map (\<lambda>r. replicate (length (filter (\<lambda>c. c \<in> set cgs) (tt_class_groups r))) r)
       (filter (in_scope days slots) (timetable_tbl s)))"

text \<open>The loop over \<open>idx in (1, 2, 3)\<close> that puts a value into the first free sub-index.\<close>

fun place :: "string \<Rightarrow> string \<Rightarrow> int list \<Rightarrow> (string \<rightharpoonup> string) \<Rightarrow> (string \<rightharpoonup> string)" where
  "place base v [] current = current"
| "place base v (idx # rest) current =
     (let k = base @ ''_'' @ show_int idx
      in if current k = None then current(k \<mapsto> v) else place base v rest current)"

definition current_base :: "int \<Rightarrow> timetable \<Rightarrow> string" where
  "current_base cg r =
     show_int cg @ ''_'' @ tt_day r @ ''_'' @ strftime_HM (tt_start_time r) @ ''_'' @
     strftime_HM (tt_end_time r)"

definition row_into_current ::
  "int list \<Rightarrow> timetable \<Rightarrow> (string \<rightharpoonup> string) \<Rightarrow> (string \<rightharpoonup> string)" where
  "row_into_current selected_class_ids r current =
     (case tt_subject_fk_id r of
        None \<Rightarrow> current
      | Some subj_id \<Rightarrow>
          if subj_id = 0 \<or> tt_teacher_id r = 0 then current
          else fold (\<lambda>cg cur.
                 if cg \<notin> set selected_class_ids then cur
                 else place (current_base cg r)
                        (show_int subj_id @ ''-'' @ show_int (tt_teacher_id r)) [1, 2, 3] cur)
                 (tt_class_groups r) current)"

definition build_current ::
  "string list \<Rightarrow> (time \<times> time) list \<Rightarrow> int list \<Rightarrow> int list \<Rightarrow> db \<Rightarrow> (string \<rightharpoonup> string)" where
  "build_current days slots selected_class_ids cgs s =
     (if selected_class_ids = [] then Map.empty
      else fold (row_into_current selected_class_ids) (rows_for days slots cgs s) Map.empty)"

section \<open>The two builder views\<close>

text \<open>
  \<open>[int(cid) for cid in selected_ids if cid]\<close> inside \<open>try\<close>: one entry that is no
  integer empties the whole list.
\<close>

definition parse_selected :: "string list \<Rightarrow> int list" where
  "parse_selected selected_ids =
     (case those (map py_int (filter (\<lambda>cid. cid \<noteq> []) selected_ids)) of
        None \<Rightarrow> []
      | Some ids \<Rightarrow> ids)"

definition selected_class_ids :: "request \<Rightarrow> int list" where
  "selected_class_ids req =
     parse_selected
       (if req_method req = POST then getlist ''selected_classes'' (req_POST req)
        else getlist ''classes'' (req_GET req))"

text \<open>\<open>ClassGroup.objects.filter(id__in=selected_class_ids)\<close>, or \<open>none()\<close>.\<close>

definition selected_class_groups :: "request \<Rightarrow> db \<Rightarrow> int list" where
  "selected_class_groups req s =
     (if selected_class_ids req \<noteq> []
      then filter (\<lambda>c. c \<in> set (selected_class_ids req)) (class_group_tbl s)
      else [])"

definition normal_slot_msg :: string where
  "normal_slot_msg =
     ''A teacher cannot be assigned different subjects in the same '' @
     ''time slot. Adjust the timetable so each teacher has only one '' @
     ''subject per slot.''"

definition remedial_slot_msg :: string where
  "remedial_slot_msg =
     ''A teacher cannot be assigned different subjects in the same '' @
     ''remedial time slot. Adjust the timetable so each teacher has only one '' @
     ''subject per slot.''"

text \<open>
  What a view answers: the rendered template with the two context entries the claims are
  about, or the exception that left the view. The other context entries (the drop-down
  pairs, the joint configuration for the page's script) are read-only and left out.
\<close>

record page =
  error_message :: "string option"
  current :: "string \<rightharpoonup> string"

datatype response = Rendered page | Raised exn

definition respond ::
  "string list \<Rightarrow> (time \<times> time) list \<Rightarrow> request \<Rightarrow> db \<Rightarrow>
   exn option \<times> string option \<times> db \<Rightarrow> response \<times> db" where
  "respond days slots req s0 r =
     (case r of (raised, err, s) \<Rightarrow>
        (case raised of
           Some e \<Rightarrow> (Raised e, s)
         | None \<Rightarrow>
             (Rendered \<lparr>error_message = err,
                current = build_current days slots (selected_class_ids req)
                            (selected_class_groups req s0) s\<rparr>, s)))"

definition timetable_builder :: "request \<Rightarrow> db \<Rightarrow> response \<times> db" where
  "timetable_builder req s =
     (case fixed_timetable_structure of (days, slots) \<Rightarrow>
        let class_groups = selected_class_groups req s in
        respond days slots req s
          (if req_method req = POST \<and> selected_class_ids req \<noteq> [] then
             (let action = qd_get ''action'' (req_POST req) in
              if action = Some ''clear'' then (None, None, clear_rows days slots class_groups s)
              else if action = Some ''save''
              then save_action normal_slot_msg days slots class_groups (req_POST req) s
              else (None, Some ''Unknown action; timetable was not saved.'', s))
           else (None, None, s)))"

definition remedial_timetable_builder :: "request \<Rightarrow> db \<Rightarrow> response \<times> db" where
  "remedial_timetable_builder req s =
     (case fixed_remedial_structure of (days, slots) \<Rightarrow>
        let class_groups = selected_class_groups req s in
        respond days slots req s
          (if req_method req = POST \<and> selected_class_ids req \<noteq> [] then
             (let action = qd_get ''action'' (req_POST req) in
              if action = Some ''save''
              then save_action remedial_slot_msg days slots class_groups (req_POST req) s
              else (None, Some ''Unknown action; remedial timetable was not saved.'', s))
           else (None, None, s)))"

text \<open>
  The views open no transaction. Whether the framework wraps each request in one is the
  setting \<open>ATOMIC_REQUESTS\<close> of the project's settings module (off unless set); it is a
  parameter here. With it an exception rolls the database back to its state before the
  request; without it every statement is committed as it runs.
\<close>

definition handle_request ::
  "bool \<Rightarrow> (request \<Rightarrow> db \<Rightarrow> response \<times> db) \<Rightarrow> request \<Rightarrow> db \<Rightarrow> response \<times> db" where
  "handle_request atomic_requests view req s =
     (case view req s of
        (Raised e, s1) \<Rightarrow> (Raised e, if atomic_requests then s else s1)
      | (Rendered p, s1) \<Rightarrow> (Rendered p, s1))"

section \<open>The read-side collapse of logical lessons\<close>

text \<open>
  \<open>str.lower()\<close> on the code points below 256: the ASCII capitals and the Latin-1
  capitals move up by 32.
\<close>

definition py_lower_char :: "char \<Rightarrow> char" where
  "py_lower_char c =
     (let n = (of_char c :: nat)
      in if (65 \<le> n \<and> n \<le> 90) \<or> (192 \<le> n \<and> n \<le> 222 \<and> n \<noteq> 215)
         then char_of (n + 32) else c)"

definition py_lower :: "string \<Rightarrow> string" where
  "py_lower s = map py_lower_char s"

definition status_rank :: "string \<Rightarrow> nat" where
  "status_rank v0 =
     (let v = py_lower (strip v0)
      in if v = ''attended'' then 3
         else if v = ''not attended'' then 2
         else if v = ''pending'' then 1
         else 0)"

definition payment_rank :: "string \<Rightarrow> nat" where
  "payment_rank v0 =
     (let v = py_lower (strip v0)
      in if v = ''paid'' then 2
         else if v = ''unpaid'' then 1
         else 0)"

text \<open>
  A \<open>LessonRecord\<close> joined with its \<open>Timetable\<close> row. The amount is a \<open>Decimal\<close> with
  two places, counted in hundredths.
\<close>

record lesson_record =
  lr_timetable :: timetable
  lr_status :: string
  lr_payment_status :: string
  lr_amount :: int

type_synonym logical_key = "int \<times> string \<times> time \<times> time \<times> int option"

record agg =
  agg_teacher_id :: int
  agg_status :: "string option"
  agg_payment_status :: "string option"
  agg_paid_amount :: int
  agg_unpaid_amount :: int

definition lesson_key :: "timetable \<Rightarrow> logical_key" where
  "lesson_key r =
     (tt_teacher_id r, tt_day r, tt_start_time r, tt_end_time r, tt_subject_fk_id r)"

text \<open>The body of the loop \<open>for rec in lessons\<close> of \<open>remedial_stats\<close>.\<close>

definition merge_record :: "lesson_record \<Rightarrow> (logical_key \<rightharpoonup> agg) \<Rightarrow> (logical_key \<rightharpoonup> agg)" where
  "merge_record r logical_map =
     (let tt = lr_timetable r;
          k = lesson_key tt;
          a0 = (case logical_map k of
                  None \<Rightarrow> \<lparr>agg_teacher_id = tt_teacher_id tt, agg_status = None,
                            agg_payment_status = None, agg_paid_amount = 0,
                            agg_unpaid_amount = 0\<rparr>
                | Some a \<Rightarrow> a);
          new_status = strip (if lr_status r = [] then ''Pending'' else lr_status r);
          a1 = (if agg_status a0 = None
                   \<or> status_rank new_status > status_rank (the (agg_status a0))
                then a0\<lparr>agg_status := Some new_status\<rparr> else a0);
          new_pay = strip (lr_payment_status r);
          a2 = (if new_pay \<noteq> []
                then (if agg_payment_status a1 = None
                         \<or> payment_rank new_pay > payment_rank (the (agg_payment_status a1))
                      then a1\<lparr>agg_payment_status := Some new_pay\<rparr> else a1)
                else a1);
          pay = py_lower (strip (lr_payment_status r));
          a3 = (if pay = ''paid''
                then a2\<lparr>agg_paid_amount := agg_paid_amount a2 + lr_amount r\<rparr>
                else if pay = ''unpaid''
                then a2\<lparr>agg_unpaid_amount := agg_unpaid_amount a2 + lr_amount r\<rparr>
                else a2)
      in logical_map(k \<mapsto> a3))"

definition remedial_logical_map :: "lesson_record list \<Rightarrow> (logical_key \<rightharpoonup> agg)" where
  "remedial_logical_map lessons = fold merge_record lessons Map.empty"

text \<open>
  A \<open>NormalLessonAttendance\<close> joined with its \<open>NormalLessonSlot\<close>, and the collapse loop
  of \<open>deputy_normal_stats\<close>: \<open>logical_map[key] = att.status or "Pending"\<close>.
\<close>

record attendance =
  att_teacher_id :: int
  att_day :: string
  att_start_time :: time
  att_end_time :: time
  att_subject_fk_id :: int
  att_status :: string

definition attendance_key :: "attendance \<Rightarrow> int \<times> string \<times> time \<times> time \<times> int" where
  "attendance_key a =
     (att_teacher_id a, att_day a, att_start_time a, att_end_time a, att_subject_fk_id a)"

definition deputy_logical_map ::
  "attendance list \<Rightarrow> (int \<times> string \<times> time \<times> time \<times> int \<rightharpoonup> string)" where
  "deputy_logical_map attendances =
     fold (\<lambda>att logical_map.
            logical_map(attendance_key att \<mapsto>
              (if att_status att = [] then ''Pending'' else att_status att)))
       attendances Map.empty"

section \<open>The model's own validation\<close>

text \<open>
  \<open>Timetable.clean\<close>: \<open>None\<close> when it returns, \<open>Some ValidationError\<close> when it raises. A
  row clashes when it has the same teacher, day, start and end, another primary key and
  another subject. The framework calls \<open>clean\<close> from model forms (the admin site); the
  builders create their rows with \<open>objects.create\<close>, which does not call it.
\<close>

datatype validation_error = ValidationError

definition Timetable_clean :: "timetable \<Rightarrow> db \<Rightarrow> validation_error option" where
  "Timetable_clean r s =
     (if tt_day r = [] then None
      else if list_ex (\<lambda>r'. tt_teacher_id r' = tt_teacher_id r \<and> tt_day r' = tt_day r \<and>
                             tt_start_time r' = tt_start_time r \<and>
                             tt_end_time r' = tt_end_time r \<and> tt_pk r' \<noteq> tt_pk r \<and>
                             tt_subject_fk_id r' \<noteq> tt_subject_fk_id r)
                (timetable_tbl s)
      then Some ValidationError else None)"

section \<open>Example data\<close>

text \<open>
  A small school: class groups 1 (F2N), 2 (F2S) and 3, subjects 1 (Math) and 2 (Physics),
  teachers 7 and 8; Math is an active joint subject and the active joint set F2 holds
  the class groups 1 and 2.
\<close>

definition school :: db where
  "school =
     \<lparr>class_group_tbl = [1, 2, 3], subject_tbl = [1, 2], teacher_tbl = [7, 8],
      joint_subject_tbl = [(1, True)], joint_set_tbl = [(''F2'', [1, 2], True)],
      timetable_tbl = [], next_pk = 1\<rparr>"

definition math_mon_8 :: "int \<Rightarrow> int list \<Rightarrow> timetable" where
  "math_mon_8 pk cgs =
     \<lparr>tt_pk = pk, tt_subject_fk_id = Some 1, tt_teacher_id = 7, tt_day = ''Mon'',
      tt_start_time = (8, 0), tt_end_time = (8, 40), tt_class_groups = cgs\<rparr>"

definition save_request :: "string list \<Rightarrow> querydict \<Rightarrow> request" where
  "save_request classes cells =
     \<lparr>req_method = POST, req_GET = [],
      req_POST = map (\<lambda>c. (''selected_classes'', c)) classes @ [(''action'', ''save'')] @ cells\<rparr>"

definition att_math_mon_8 :: "string \<Rightarrow> attendance" where
  "att_math_mon_8 st =
     \<lparr>att_teacher_id = 7, att_day = ''Mon'', att_start_time = (8, 0),
      att_end_time = (8, 40), att_subject_fk_id = 1, att_status = st\<rparr>"

section \<open>What a submitted grid says\<close>

text \<open>
  The pair a cell assigns is the decoded pair of its stripped value; a cell is malformed
  when its value is not empty and does not decode.
\<close>

definition assigned :: "querydict \<Rightarrow> cell \<Rightarrow> (int \<times> int) option" where
  "assigned post c = parse_val (cell_val post c)"

definition malformed :: "querydict \<Rightarrow> cell \<Rightarrow> bool" where
  "malformed post c = (cell_val post c \<noteq> [] \<and> parse_val (cell_val post c) = None)"

definition cell_class :: "cell \<Rightarrow> int" where
  "cell_class c = fst c"

definition slot_key_of :: "cell \<Rightarrow> int \<times> int \<Rightarrow> slot_key" where
  "slot_key_of c p = (case c of (cg, d, st, et, idx) \<Rightarrow> (snd p, d, st, et))"

definition block_key_of :: "cell \<Rightarrow> int \<times> int \<Rightarrow> block_key" where
  "block_key_of c p = (case c of (cg, d, st, et, idx) \<Rightarrow> (snd p, d, st, et, fst p))"

definition block_subject :: "block_key \<Rightarrow> int" where
  "block_subject k = (case k of (teacher_id, d, st, et, subj_id) \<Rightarrow> subj_id)"

text \<open>The subjects a (teacher, day, start, end) slot is given by the cells of a grid.\<close>

definition slot_subjects :: "querydict \<Rightarrow> cell list \<Rightarrow> slot_key \<Rightarrow> int set" where
  "slot_subjects post cells k =
     {fst p | c p. c \<in> set cells \<and> assigned post c = Some p \<and> slot_key_of c p = k}"

text \<open>The class groups a (teacher, day, start, end, subject) block is given.\<close>

definition block_class_groups :: "querydict \<Rightarrow> cell list \<Rightarrow> block_key \<Rightarrow> int set" where
  "block_class_groups post cells k =
     {cell_class c | c p. c \<in> set cells \<and> assigned post c = Some p \<and> block_key_of c p = k}"

definition several :: "'a set \<Rightarrow> bool" where
  "several A = (\<exists>a \<in> A. \<exists>b \<in> A. a \<noteq> b)"

definition one_tag :: "(int \<Rightarrow> string option) \<Rightarrow> int set \<Rightarrow> bool" where
  "one_tag tag A = (\<exists>t. \<forall>cg \<in> A. tag cg = Some t)"

text \<open>
  The three conditions under which a grid is to be refused: a slot with two subjects, a
  block of several class groups whose subject is no active joint subject, a block of
  several class groups that do not all carry one and the same tag.
\<close>

definition teacher_double_booked :: "querydict \<Rightarrow> cell list \<Rightarrow> bool" where
  "teacher_double_booked post cells = (\<exists>k. several (slot_subjects post cells k))"

definition block_without_joint_subject :: "db \<Rightarrow> querydict \<Rightarrow> cell list \<Rightarrow> bool" where
  "block_without_joint_subject s post cells =
     (\<exists>k. several (block_class_groups post cells k) \<and>
          block_subject k \<notin> set (joint_subject_ids s))"

definition block_without_joint_group :: "db \<Rightarrow> querydict \<Rightarrow> cell list \<Rightarrow> bool" where
  "block_without_joint_group s post cells =
     (\<exists>k. several (block_class_groups post cells k) \<and>
          \<not> one_tag (class_to_tag s) (block_class_groups post cells k))"

text \<open>The cells a builder reads for a request: the grid of the selected class groups.\<close>

definition submitted_cells :: "string list \<times> (time \<times> time) list \<Rightarrow> request \<Rightarrow> db \<Rightarrow> cell list" where
  "submitted_cells structure req s =
     grid_cells (selected_class_groups req s) (fst structure) (snd structure)"

definition is_save :: "request \<Rightarrow> bool" where
  "is_save req =
     (req_method req = POST \<and> selected_class_ids req \<noteq> [] \<and>
      qd_get ''action'' (req_POST req) = Some ''save'')"

text \<open>The decoded cells of a grid, in the order of the loops.\<close>

definition assigns :: "querydict \<Rightarrow> cell list \<Rightarrow> (cell \<times> int \<times> int) list" where
  "assigns post cells =
     List.map_filter (\<lambda>c. map_option (\<lambda>p. (c, p)) (assigned post c)) cells"

fun dd_get :: "('k \<times> 'v list) list \<Rightarrow> 'k \<Rightarrow> 'v list" where
  "dd_get [] k = []"
| "dd_get ((k', vs) # d) k = (if k = k' then vs else dd_get d k)"

definition dd_ok :: "('k \<times> 'v list) list \<Rightarrow> bool" where
  "dd_ok d = (distinct (map fst d) \<and> (\<forall>kv \<in> set d. distinct (snd kv)))"

definition ok_block :: "int list \<Rightarrow> (int \<Rightarrow> string option) \<Rightarrow> block_key \<Rightarrow> int set \<Rightarrow> bool" where
  "ok_block jsubj tag k A =
     (several A \<longrightarrow> block_subject k \<in> set jsubj \<and> one_tag tag A)"

text \<open>
  Scenario D: class group 1 is given Math with teacher 7 and Physics with teacher 7 in
  the two first sub-indices of Monday 08:00 to 08:40.
\<close>

definition double_booked_request :: request where
  "double_booked_request =
     save_request [''1'']
       [(''cell_1_Mon_0800_0840_1'', ''1-7''), (''cell_1_Mon_0800_0840_2'', ''2-7'')]"

text \<open>
  Class groups 1 and 3 are both given Physics, which is no joint subject, with teacher 8
  on Saturday 07:00 to 08:00 of the remedial grid.
\<close>

definition not_joint_request :: request where
  "not_joint_request =
     save_request [''1'', ''3'']
       [(''cell_1_Sat_0700_0800_1'', ''2-8''), (''cell_3_Sat_0700_0800_1'', ''2-8'')]"

section \<open>What a save leaves in the table\<close>

text \<open>
  Primary keys are handed out in increasing order: every row's key lies below the next
  key of the table.
\<close>

definition wf_db :: "db \<Rightarrow> bool" where
  "wf_db s = (\<forall>r \<in> set (timetable_tbl s). tt_pk r < next_pk s)"

text \<open>A row without its primary key.\<close>

definition row_content ::
  "timetable \<Rightarrow> int option \<times> int \<times> string \<times> time \<times> time \<times> int list" where
  "row_content r =
     (tt_subject_fk_id r, tt_teacher_id r, tt_day r, tt_start_time r, tt_end_time r,
      tt_class_groups r)"

text \<open>
  A row is touched by an edit of the class groups \<open>cgs\<close> when it lies in the scope of the
  structure and one of its class groups is among \<open>cgs\<close>.
\<close>

definition touched :: "string list \<Rightarrow> (time \<times> time) list \<Rightarrow> int list \<Rightarrow> timetable \<Rightarrow> bool" where
  "touched days slots cgs r =
     (in_scope days slots r \<and> (\<exists>cg \<in> set cgs. cg \<in> set (tt_class_groups r)))"

definition created_key_of :: "cell \<times> int \<times> int \<Rightarrow> created_key" where
  "created_key_of x =
     (case x of ((cg, d, st, et, idx), (subj_id, teacher_id)) \<Rightarrow>
        (cg, d, st, et, subj_id, teacher_id))"

text \<open>The keys the creation loop meets, in loop order, repetitions included.\<close>

definition created_keys_of :: "querydict \<Rightarrow> cell list \<Rightarrow> created_key list" where
  "created_keys_of post cells = map created_key_of (assigns post cells)"

text \<open>The members of a list that are not in \<open>seen\<close>, each at its first occurrence.\<close>

fun first_occurrences :: "'a list \<Rightarrow> 'a list \<Rightarrow> 'a list" where
  "first_occurrences seen [] = []"
| "first_occurrences seen (k # ks) =
     (if k \<in> set seen then first_occurrences seen ks
      else k # first_occurrences (k # seen) ks)"

definition fk_ok :: "db \<Rightarrow> created_key \<Rightarrow> bool" where
  "fk_ok s k =
     (case k of (cg, d, st, et, subj_id, teacher_id) \<Rightarrow>
        subj_id \<in> set (subject_tbl s) \<and> teacher_id \<in> set (teacher_tbl s))"

definition row_of_key :: "int \<Rightarrow> created_key \<Rightarrow> timetable" where
  "row_of_key pk k =
     (case k of (cg, d, st, et, subj_id, teacher_id) \<Rightarrow>
        \<lparr>tt_pk = pk, tt_subject_fk_id = Some subj_id, tt_teacher_id = teacher_id, tt_day = d,
         tt_start_time = st, tt_end_time = et, tt_class_groups = [cg]\<rparr>)"

text \<open>One row for each key, with consecutive primary keys from \<open>pk\<close> on.\<close>

fun new_rows :: "int \<Rightarrow> created_key list \<Rightarrow> timetable list" where
  "new_rows pk [] = []"
| "new_rows pk (k # ks) = row_of_key pk k # new_rows (pk + 1) ks"

text \<open>
  The keys a save creates rows for, and the database a save leaves when its validation
  accepts the grid: the untouched rows, then one row for each key up to the first key
  whose subject or teacher does not exist.
\<close>

definition keys_to_create :: "querydict \<Rightarrow> cell list \<Rightarrow> created_key list" where
  "keys_to_create post cells = first_occurrences [] (created_keys_of post cells)"

definition db_after :: "db \<Rightarrow> created_key list \<Rightarrow> db" where
  "db_after s ks =
     s\<lparr>timetable_tbl := timetable_tbl s @ new_rows (next_pk s) (takeWhile (fk_ok s) ks),
       next_pk := next_pk s + int (length (takeWhile (fk_ok s) ks))\<rparr>"

definition exn_after :: "db \<Rightarrow> created_key list \<Rightarrow> exn option" where
  "exn_after s ks = (if list_all (fk_ok s) ks then None else Some IntegrityError)"

text \<open>
  What both builders do with a save request, for the structure and the slot message of
  the builder.
\<close>

definition save_view ::
  "string \<Rightarrow> string list \<times> (time \<times> time) list \<Rightarrow> request \<Rightarrow> db \<Rightarrow> response \<times> db" where
  "save_view msg structure req s =
     respond (fst structure) (snd structure) req s
       (save_action msg (fst structure) (snd structure) (selected_class_groups req s)
          (req_POST req) s)"

text \<open>A request is accepted when the page is rendered without an error message.\<close>

definition accepted :: "response \<times> db \<Rightarrow> bool" where
  "accepted r = (\<exists>p. fst r = Rendered p \<and> error_message p = None)"

definition touched_by ::
  "string list \<times> (time \<times> time) list \<Rightarrow> request \<Rightarrow> db \<Rightarrow> timetable \<Rightarrow> bool" where
  "touched_by structure req s r =
     touched (fst structure) (snd structure) (selected_class_groups req s) r"

text \<open>The cells of a grid whose submitted value is not empty.\<close>

definition nonempty_cells :: "querydict \<Rightarrow> cell list \<Rightarrow> cell list" where
  "nonempty_cells post cells = filter (\<lambda>c. cell_val post c \<noteq> []) cells"

text \<open>
  Scenario B: class groups 1 and 2 are both given Math with teacher 7 on Monday 08:00 to
  08:40.
\<close>

definition joint_request :: request where
  "joint_request =
     save_request [''1'', ''2'']
       [(''cell_1_Mon_0800_0840_1'', ''1-7''), (''cell_2_Mon_0800_0840_1'', ''1-7'')]"

text \<open>Class group 1 is given Math with teacher 7 in the three sub-indices of one cell, twice in the same spelling and once with a sign and a leading zero.\<close>

definition repeated_request :: request where
  "repeated_request =
     save_request [''1'']
       [(''cell_1_Mon_0800_0840_1'', ''1-7''), (''cell_1_Mon_0800_0840_2'', ''1-7''),
        (''cell_1_Mon_0800_0840_3'', ''+1-07'')]"

text \<open>
  Two saves over different selections: class group 1 is given Math with teacher 7 on
  Monday 08:00 to 08:40, then class group 2 is given Physics with the same teacher in
  the same slot.
\<close>

definition math_request :: request where
  "math_request = save_request [''1''] [(''cell_1_Mon_0800_0840_1'', ''1-7'')]"

definition physics_request :: request where
  "physics_request = save_request [''2''] [(''cell_2_Mon_0800_0840_1'', ''2-7'')]"

definition physics_mon_8 :: "int \<Rightarrow> int list \<Rightarrow> timetable" where
  "physics_mon_8 pk cgs =
     \<lparr>tt_pk = pk, tt_subject_fk_id = Some 2, tt_teacher_id = 7, tt_day = ''Mon'',
      tt_start_time = (8, 0), tt_end_time = (8, 40), tt_class_groups = cgs\<rparr>"

text \<open>
  A save for class group 1 whose second cell names teacher 99, who does not exist, on a
  database where class group 1 already has Physics on Monday 08:00.
\<close>

definition missing_teacher_request :: request where
  "missing_teacher_request =
     save_request [''1'']
       [(''cell_1_Mon_0800_0840_1'', ''1-7''), (''cell_1_Mon_0840_0920_1'', ''1-99'')]"

definition remedial_missing_teacher_request :: request where
  "remedial_missing_teacher_request =
     save_request [''1'']
       [(''cell_1_Sat_0700_0800_1'', ''1-7''), (''cell_1_Sat_0800_0900_1'', ''1-99'')]"

definition math_mon_840 :: "int \<Rightarrow> int list \<Rightarrow> timetable" where
  "math_mon_840 pk cgs =
     \<lparr>tt_pk = pk, tt_subject_fk_id = Some 1, tt_teacher_id = 7, tt_day = ''Mon'',
      tt_start_time = (8, 40), tt_end_time = (9, 20), tt_class_groups = cgs\<rparr>"

definition math_sat_7 :: "int \<Rightarrow> int list \<Rightarrow> timetable" where
  "math_sat_7 pk cgs =
     \<lparr>tt_pk = pk, tt_subject_fk_id = Some 1, tt_teacher_id = 7, tt_day = ''Sat'',
      tt_start_time = (7, 0), tt_end_time = (8, 0), tt_class_groups = cgs\<rparr>"

definition with_rows :: "timetable list \<Rightarrow> int \<Rightarrow> db" where
  "with_rows rows pk = school\<lparr>timetable_tbl := rows, next_pk := pk\<rparr>"

section \<open>The round trip of a grid\<close>

text \<open>
  The key of a cell in the current selection map (the field name without its prefix) and
  the value the map holds for a pair of ids.
\<close>

definition current_key :: "cell \<Rightarrow> string" where
  "current_key c =
     (case c of (cg, d, st, et, idx) \<Rightarrow>
        show_int cg @ ''_'' @ d @ ''_'' @ strftime_HM st @ ''_'' @ strftime_HM et @ ''_'' @
        show_int idx)"

definition render :: "int \<times> int \<Rightarrow> string" where
  "render p = show_int (fst p) @ ''-'' @ show_int (snd p)"

text \<open>
  A grid is well packed when every non-empty cell holds the rendering of a pair of
  non-zero ids, the non-empty sub-indices of a cell are filled from 1 on, and the values
  in the sub-indices of one cell differ.
\<close>

definition well_packed :: "querydict \<Rightarrow> cell list \<Rightarrow> bool" where
  "well_packed post cells =
     (\<forall>c \<in> set cells. cell_val post c \<noteq> [] \<longrightarrow>
        (case c of (cg, d, st, et, idx) \<Rightarrow>
           (\<exists>p. assigned post c = Some p \<and> fst p \<noteq> 0 \<and> snd p \<noteq> 0 \<and>
                cell_val post c = render p)
         \<and> (1 < idx \<longrightarrow> cell_val post (cg, d, st, et, idx - 1) \<noteq> [])
         \<and> (\<forall>j \<in> {1, 2, 3}. j \<noteq> idx \<longrightarrow>
                cell_val post (cg, d, st, et, j) \<noteq> cell_val post c)))"

definition ids_exist :: "db \<Rightarrow> querydict \<Rightarrow> cell list \<Rightarrow> bool" where
  "ids_exist s post cells =
     (\<forall>c \<in> set cells. \<forall>p. assigned post c = Some p \<longrightarrow>
        fst p \<in> set (subject_tbl s) \<and> snd p \<in> set (teacher_tbl s))"

text \<open>The element of a list at a position counted from 1, if there is one.\<close>

definition nth_from_1 :: "'a list \<Rightarrow> int \<Rightarrow> 'a option" where
  "nth_from_1 xs i = (if 1 \<le> i \<and> nat i \<le> length xs then Some (xs ! (nat i - 1)) else None)"

text \<open>
  Class group 1 is given Math with teacher 7 in sub-index 2 alone of Monday 08:00; and
  class group 1 is given two parallel lessons in the sub-indices 1 and 2.
\<close>

definition subindex_request :: request where
  "subindex_request = save_request [''1''] [(''cell_1_Mon_0800_0840_2'', ''1-7'')]"

definition parallel_request :: request where
  "parallel_request =
     save_request [''1'']
       [(''cell_1_Mon_0800_0840_1'', ''1-7''), (''cell_1_Mon_0800_0840_2'', ''2-8'')]"

definition physics8_mon_8 :: "int \<Rightarrow> int list \<Rightarrow> timetable" where
  "physics8_mon_8 pk cgs =
     \<lparr>tt_pk = pk, tt_subject_fk_id = Some 2, tt_teacher_id = 8, tt_day = ''Mon'',
      tt_start_time = (8, 0), tt_end_time = (8, 40), tt_class_groups = cgs\<rparr>"

text \<open>
  The slot of a cell and of a created key (class group, day, start, end), the cell of a
  slot at a sub-index, and the pair of ids of a created key.
\<close>

type_synonym grid_slot = "int \<times> string \<times> time \<times> time"

definition cell_slot :: "cell \<Rightarrow> grid_slot" where
  "cell_slot c = (case c of (cg, d, st, et, idx) \<Rightarrow> (cg, d, st, et))"

definition key_slot :: "created_key \<Rightarrow> grid_slot" where
  "key_slot k = (case k of (cg, d, st, et, subj_id, teacher_id) \<Rightarrow> (cg, d, st, et))"

definition key_pair :: "created_key \<Rightarrow> int \<times> int" where
  "key_pair k = (case k of (cg, d, st, et, subj_id, teacher_id) \<Rightarrow> (subj_id, teacher_id))"

definition slot_cell :: "grid_slot \<Rightarrow> int \<Rightarrow> cell" where
  "slot_cell b idx = (case b of (cg, d, st, et) \<Rightarrow> (cg, d, st, et, idx))"

text \<open>
  The shape of the slots of a builder's grid: a day of three characters and clock times.
\<close>

definition grid_like :: "grid_slot \<Rightarrow> bool" where
  "grid_like b =
     (case b of (cg, d, st, et) \<Rightarrow>
        length d = 3 \<and> fst st < 100 \<and> snd st < 100 \<and> fst et < 100 \<and> snd et < 100)"

text \<open>
  A selection map represents the lists \<open>occ\<close> of values when each slot of the shape above
  holds its values in the sub-indices 1, 2, 3, in the order of the list.
\<close>

definition represents :: "(string \<rightharpoonup> string) \<Rightarrow> (grid_slot \<Rightarrow> string list) \<Rightarrow> bool" where
  "represents cur occ =
     (\<forall>b. \<forall>i \<in> {1, 2, 3}. grid_like b \<longrightarrow> cur (current_key (slot_cell b i)) = nth_from_1 (occ b) i)"

section \<open>Empty cells and requests without a selection\<close>

lemma parse_val_Nil: "parse_val [] = None"
  by (simp add: parse_val_def)

lemma strip_Nil: "strip [] = []"
  by (simp add: strip_def)

lemma validate_cell_empty: "cell_val post c = [] \<Longrightarrow> validate_cell post c vs = vs"
  by (simp add: validate_cell_def split: prod.splits)

lemma fold_validate_skip:
  "fold (validate_cell post) cells vs =
   fold (validate_cell post) (filter (\<lambda>c. cell_val post c \<noteq> []) cells) vs"
  by (induction cells arbitrary: vs) (simp_all add: validate_cell_empty)

lemma create_cell_empty: "cell_val post c = [] \<Longrightarrow> create_cell post c cs = (None, cs)"
  by (simp add: create_cell_def split: prod.splits)

lemma create_cells_skip:
  "create_cells post cells cs =
   create_cells post (filter (\<lambda>c. cell_val post c \<noteq> []) cells) cs"
  by (induction cells arbitrary: cs)
     (auto simp: create_cell_empty split: prod.splits option.splits)

lemma field_name_prefix: "take 5 (field_name c) = ''cell_''"
  by (simp add: field_name_def split: prod.splits)

lemma qd_get_default_absent: "k \<notin> fst ` set qd \<Longrightarrow> qd_get_default k d qd = d"
proof -
  assume "k \<notin> fst ` set qd"
  then have "filter (\<lambda>kv. fst kv = k) qd = []"
    by (induction qd) auto
  then show ?thesis by (simp add: qd_get_default_def qd_get_def getlist_def)
qed

lemma cell_val_no_cell_keys:
  assumes "\<forall>k \<in> fst ` set post. take 5 k \<noteq> ''cell_''"
  shows "cell_val post c = []"
proof -
  have "field_name c \<notin> fst ` set post"
    using assms field_name_prefix [of c] by metis
  then show ?thesis
    by (simp add: cell_val_def qd_get_default_absent strip_Nil)
qed

lemma validate_all_empty:
  assumes "\<forall>c \<in> set cells. cell_val post c = []"
  shows "validate msg post cells s = None"
proof -
  have "filter (\<lambda>c. cell_val post c \<noteq> []) cells = []"
    using assms by (induction cells) auto
  then have "collect_blocks post cells =
      \<lparr>v_error_message = None, v_block_classes = [], v_block_subjects = []\<rparr>"
    unfolding collect_blocks_def by (subst fold_validate_skip) simp
  then show ?thesis by (simp add: validate_def)
qed

lemma save_action_all_empty:
  assumes "\<forall>c \<in> set (grid_cells cgs days slots). cell_val post c = []"
  shows "save_action msg days slots cgs post s = (None, None, clear_rows days slots cgs s)"
proof -
  have f: "filter (\<lambda>c. cell_val post c \<noteq> []) (grid_cells cgs days slots) = []"
    using assms by (induction "grid_cells cgs days slots") auto
  have "create_cells post (grid_cells cgs days slots) cs = (None, cs)" for cs
    by (subst create_cells_skip) (simp add: f)
  then show ?thesis
    using validate_all_empty [OF assms] by (simp add: save_action_def)
qed

lemma parse_selected_none:
  assumes "\<forall>cid \<in> set ids. cid = [] \<or> py_int cid = None"
  shows "parse_selected ids = []"
proof (cases "filter (\<lambda>cid. cid \<noteq> []) ids")
  case Nil
  then show ?thesis by (simp add: parse_selected_def)
next
  case (Cons c cs)
  then have "c \<in> set (filter (\<lambda>cid. cid \<noteq> []) ids)" by simp
  then have "c \<in> set ids" "c \<noteq> []" by auto
  with assms have "py_int c = None" by auto
  with Cons show ?thesis by (simp add: parse_selected_def)
qed

lemma builders_no_selection:
  assumes "selected_class_ids req = []"
  shows "timetable_builder req s = (Rendered \<lparr>error_message = None, current = Map.empty\<rparr>, s)"
    and "remedial_timetable_builder req s =
         (Rendered \<lparr>error_message = None, current = Map.empty\<rparr>, s)"
  using assms
  by (simp_all add: timetable_builder_def remedial_timetable_builder_def respond_def
      build_current_def split: prod.splits)

text \<open>
  Claim C10. A POST to either builder whose selected-class list is empty, or holds only
  empty entries and entries that are no integer, is a silent no-op whatever the action:
  the page carries no error message and an empty selection map, and the database is the
  one before the request. With classes selected, an action that is not \<open>save\<close> (and,
  for the normal builder, not \<open>clear\<close>) leaves the database alone too but answers with
  the explanatory message.
\<close>

theorem empty_selection_is_silent:
  assumes "req_method req = POST"
  shows "((\<forall>cid \<in> set (getlist ''selected_classes'' (req_POST req)).
             cid = [] \<or> py_int cid = None) \<longrightarrow>
           timetable_builder req s =
             (Rendered \<lparr>error_message = None, current = Map.empty\<rparr>, s) \<and>
           remedial_timetable_builder req s =
             (Rendered \<lparr>error_message = None, current = Map.empty\<rparr>, s))
       \<and> (selected_class_ids req \<noteq> [] \<and> qd_get ''action'' (req_POST req) \<noteq> Some ''save'' \<longrightarrow>
            (qd_get ''action'' (req_POST req) \<noteq> Some ''clear'' \<longrightarrow>
               snd (timetable_builder req s) = s \<and>
               (\<exists>p. fst (timetable_builder req s) = Rendered p \<and>
                    error_message p = Some ''Unknown action; timetable was not saved.'')) \<and>
            snd (remedial_timetable_builder req s) = s \<and>
            (\<exists>p. fst (remedial_timetable_builder req s) = Rendered p \<and>
                 error_message p = Some ''Unknown action; remedial timetable was not saved.''))"
proof (intro conjI impI)
  assume h: "\<forall>cid \<in> set (getlist ''selected_classes'' (req_POST req)).
               cid = [] \<or> py_int cid = None"
  have "selected_class_ids req = []"
    using assms parse_selected_none [OF h] by (simp add: selected_class_ids_def)
  then show "timetable_builder req s =
               (Rendered \<lparr>error_message = None, current = Map.empty\<rparr>, s)"
    and "remedial_timetable_builder req s =
               (Rendered \<lparr>error_message = None, current = Map.empty\<rparr>, s)"
    by (rule builders_no_selection)+
next
  assume a: "selected_class_ids req \<noteq> [] \<and> qd_get ''action'' (req_POST req) \<noteq> Some ''save''"
  show "snd (remedial_timetable_builder req s) = s"
    using a assms by (simp add: remedial_timetable_builder_def respond_def split: prod.splits)
  show "\<exists>p. fst (remedial_timetable_builder req s) = Rendered p \<and>
           error_message p = Some ''Unknown action; remedial timetable was not saved.''"
    using a assms by (simp add: remedial_timetable_builder_def respond_def split: prod.splits)
  assume c: "qd_get ''action'' (req_POST req) \<noteq> Some ''clear''"
  show "snd (timetable_builder req s) = s"
    using a c assms by (simp add: timetable_builder_def respond_def split: prod.splits)
  show "\<exists>p. fst (timetable_builder req s) = Rendered p \<and>
           error_message p = Some ''Unknown action; timetable was not saved.''"
    using a c assms by (simp add: timetable_builder_def respond_def split: prod.splits)
qed

lemma py_int_separator:
  "py_int [CHR 0x1C, CHR ''1''] = None"
  "py_int [CHR 0x1F, CHR ''7''] = None"
  "py_int [CHR 0x20, CHR ''1'', CHR 0x0A] = Some 1"
  "strip [CHR 0x1C, CHR 0x20, CHR ''1'', CHR ''-'', CHR ''7'', CHR 0x1F] = ''1-7''"
  by code_simp+

theorem empty_selection_is_silent_witness:
  "timetable_builder (save_request ['''', ''abc''] [(''cell_1_Mon_0800_0840_1'', ''1-7'')]) school =
     (Rendered \<lparr>error_message = None, current = Map.empty\<rparr>, school)
   \<and> remedial_timetable_builder
        (save_request ['''', ''abc''] [(''cell_1_Mon_0800_0840_1'', ''1-7'')]) school =
     (Rendered \<lparr>error_message = None, current = Map.empty\<rparr>, school)
   \<and> timetable_builder
        \<lparr>req_method = POST, req_GET = [],
         req_POST = [(''selected_classes'', [CHR 0x1C, CHR ''1'']), (''action'', ''publish'')]\<rparr>
        school =
     (Rendered \<lparr>error_message = None, current = Map.empty\<rparr>, school)
   \<and> snd (timetable_builder
        \<lparr>req_method = POST, req_GET = [],
         req_POST = [(''selected_classes'', ''1''), (''action'', ''publish'')]\<rparr> school) = school
   \<and> (\<exists>p. fst (timetable_builder
        \<lparr>req_method = POST, req_GET = [],
         req_POST = [(''selected_classes'', ''1''), (''action'', ''publish'')]\<rparr> school) = Rendered p
        \<and> error_message p = Some ''Unknown action; timetable was not saved.'')"
proof -
  let ?r1 = "save_request ['''', ''abc''] [(''cell_1_Mon_0800_0840_1'', ''1-7'')]"
  let ?r2 = "\<lparr>req_method = POST, req_GET = [],
              req_POST = [(''selected_classes'', ''1''), (''action'', ''publish'')]\<rparr>"
  let ?r3 = "\<lparr>req_method = POST, req_GET = [],
              req_POST = [(''selected_classes'', [CHR 0x1C, CHR ''1'']),
                          (''action'', ''publish'')]\<rparr>"
  have m1: "req_method ?r1 = POST" by (simp add: save_request_def)
  have h1: "\<forall>cid \<in> set (getlist ''selected_classes'' (req_POST ?r1)).
              cid = [] \<or> py_int cid = None"
    by code_simp
  have m2: "req_method ?r2 = POST" by simp
  have h2: "selected_class_ids ?r2 \<noteq> [] \<and> qd_get ''action'' (req_POST ?r2) \<noteq> Some ''save''"
    by code_simp
  have h3: "qd_get ''action'' (req_POST ?r2) \<noteq> Some ''clear''"
    by code_simp
  have m3: "req_method ?r3 = POST" by simp
  have h4: "\<forall>cid \<in> set (getlist ''selected_classes'' (req_POST ?r3)).
              cid = [] \<or> py_int cid = None"
    by code_simp
  show ?thesis
    using empty_selection_is_silent [OF m1, of school] h1
          empty_selection_is_silent [OF m2, of school] h2 h3
          empty_selection_is_silent [OF m3, of school] h4
    by blast
qed

section \<open>The two scopes overlap\<close>

text \<open>
  Claim C6. The row Math, teacher 7, Monday 08:00 to 08:40 of class group 1 is a row of
  the normal structure. Its day and its start time are also a day and a start time of
  the remedial structure, so a remedial save for class group 1 with an empty grid
  deletes it.
\<close>

theorem remedial_save_deletes_normal_row:
  "((8, 0), (8, 40)) \<in> set (snd fixed_timetable_structure)
   \<and> ((8, 0), (8, 40)) \<notin> set (snd fixed_remedial_structure)
   \<and> in_scope (fst fixed_timetable_structure) (snd fixed_timetable_structure) (math_mon_8 1 [1])
   \<and> in_scope (fst fixed_remedial_structure) (snd fixed_remedial_structure) (math_mon_8 1 [1])
   \<and> remedial_timetable_builder (save_request [''1''] [])
        (school\<lparr>timetable_tbl := [math_mon_8 1 [1]], next_pk := 2\<rparr>) =
      (Rendered \<lparr>error_message = None, current = Map.empty\<rparr>,
       school\<lparr>timetable_tbl := [], next_pk := 2\<rparr>)"
proof -
  let ?post = "req_POST (save_request [''1''] [])"
  have e: "\<forall>c \<in> set cells. cell_val ?post c = []" for cells
    by (intro ballI cell_val_no_cell_keys) (auto simp: save_request_def)
  have sel: "selected_class_ids (save_request [''1''] []) = [1]"
    by code_simp
  have act: "qd_get ''action'' ?post = Some ''save''"
    by code_simp
  have "remedial_timetable_builder (save_request [''1''] [])
        (school\<lparr>timetable_tbl := [math_mon_8 1 [1]], next_pk := 2\<rparr>) =
      (Rendered \<lparr>error_message = None, current = Map.empty\<rparr>,
       school\<lparr>timetable_tbl := [], next_pk := 2\<rparr>)"
    unfolding remedial_timetable_builder_def
    apply (simp add: sel act save_action_all_empty [OF e] respond_def
        selected_class_groups_def split: prod.splits)
    apply (simp add: save_request_def school_def clear_rows_def delete_for_def in_scope_def
        fixed_remedial_structure_def math_mon_8_def build_current_def rows_for_def)
    done
  then show ?thesis
    by (simp add: in_scope_def fixed_timetable_structure_def fixed_remedial_structure_def
        math_mon_8_def)
qed

section \<open>The collapse of the deputy statistics\<close>

text \<open>
  Claim C9. Two attendance rows of one logical lesson, the first Attended and the second
  Pending: the collapse of \<open>deputy_normal_stats\<close> keeps the status of the row it visits
  last, Pending, though Attended ranks higher.
\<close>

theorem deputy_collapse_keeps_last_status:
  "attendance_key (att_math_mon_8 ''Attended'') = attendance_key (att_math_mon_8 ''Pending'')
   \<and> status_rank ''Pending'' < status_rank ''Attended''
   \<and> deputy_logical_map [att_math_mon_8 ''Attended'', att_math_mon_8 ''Pending'']
        (attendance_key (att_math_mon_8 ''Attended'')) = Some ''Pending''
   \<and> deputy_logical_map [att_math_mon_8 ''Pending'', att_math_mon_8 ''Attended'']
        (attendance_key (att_math_mon_8 ''Attended'')) = Some ''Attended''"
proof -
  have "status_rank ''Pending'' < status_rank ''Attended''"
    by code_simp
  then show ?thesis
    by (simp add: deputy_logical_map_def attendance_key_def att_math_mon_8_def)
qed

section \<open>The validation decides by sets\<close>

lemma assigns_Nil [simp]: "assigns post [] = []"
  by (simp add: assigns_def map_filter_simps)

lemma assigns_Cons:
  "assigns post (c # cs) =
     (case assigned post c of None \<Rightarrow> assigns post cs | Some p \<Rightarrow> (c, p) # assigns post cs)"
  by (simp add: assigns_def map_filter_simps split: option.splits)

lemma set_assigns:
  "set (assigns post cells) = {(c, p). c \<in> set cells \<and> assigned post c = Some p}"
  by (induction cells) (auto simp: assigns_Cons split: option.splits)

lemma validate_cell_cases:
  "validate_cell post c vs =
     (if malformed post c then vs\<lparr>v_error_message := Some invalid_selection_msg\<rparr>
      else case assigned post c of
             None \<Rightarrow> vs
           | Some p \<Rightarrow>
               vs\<lparr>v_block_classes := dd_add (block_key_of c p) (cell_class c) (v_block_classes vs),
                  v_block_subjects := dd_add (slot_key_of c p) (fst p) (v_block_subjects vs)\<rparr>)"
  by (auto simp: validate_cell_def malformed_def assigned_def block_key_of_def slot_key_of_def
      cell_class_def parse_val_Nil Let_def split: prod.splits option.splits)

lemma fold_validate_error:
  "v_error_message (fold (validate_cell post) cells vs) =
     (if \<exists>c \<in> set cells. malformed post c then Some invalid_selection_msg
      else v_error_message vs)"
  by (induction cells arbitrary: vs) (auto simp: validate_cell_cases split: option.splits)

lemma fold_validate_subjects:
  "v_block_subjects (fold (validate_cell post) cells vs) =
     fold (\<lambda>x. dd_add (slot_key_of (fst x) (snd x)) (fst (snd x))) (assigns post cells)
       (v_block_subjects vs)"
  by (induction cells arbitrary: vs)
     (auto simp: validate_cell_cases assigns_Cons malformed_def assigned_def split: option.splits)

lemma fold_validate_classes:
  "v_block_classes (fold (validate_cell post) cells vs) =
     fold (\<lambda>x. dd_add (block_key_of (fst x) (snd x)) (cell_class (fst x))) (assigns post cells)
       (v_block_classes vs)"
  by (induction cells arbitrary: vs)
     (auto simp: validate_cell_cases assigns_Cons malformed_def assigned_def split: option.splits)

lemma dd_ok_Nil [simp]: "dd_ok []"
  by (simp add: dd_ok_def)

lemma fst_set_dd_add: "fst ` set (dd_add k v d) = insert k (fst ` set d)"
proof (induction d)
  case Nil
  then show ?case by simp
next
  case (Cons a d)
  obtain k' vs where a: "a = (k', vs)" by (cases a)
  show ?case
  proof (cases "k = k'")
    case True
    then show ?thesis by (simp add: a)
  next
    case False
    then show ?thesis using Cons.IH by (simp add: a insert_commute)
  qed
qed

lemma dd_ok_add: "dd_ok d \<Longrightarrow> dd_ok (dd_add k v d)"
proof (induction d)
  case Nil
  then show ?case by (simp add: dd_ok_def)
next
  case (Cons a d)
  obtain k' vs where a: "a = (k', vs)" by (cases a)
  from Cons.prems have "dd_ok d" by (simp add: dd_ok_def)
  then have ih: "dd_ok (dd_add k v d)" by (rule Cons.IH)
  show ?case
  proof (cases "k = k'")
    case True
    with Cons.prems a show ?thesis by (auto simp: dd_ok_def)
  next
    case False
    with Cons.prems a ih show ?thesis
      using fst_set_dd_add [of k v d] by (auto simp: dd_ok_def)
  qed
qed

lemma set_dd_get_add:
  "set (dd_get (dd_add k v d) k') =
     (if k' = k then insert v (set (dd_get d k)) else set (dd_get d k'))"
  by (induction d) (auto split: if_splits)

lemma dd_ok_fold: "dd_ok d \<Longrightarrow> dd_ok (fold (\<lambda>x. dd_add (kf x) (vf x)) xs d)"
  by (induction xs arbitrary: d) (simp_all add: dd_ok_add)

lemma set_dd_get_fold:
  "set (dd_get (fold (\<lambda>x. dd_add (kf x) (vf x)) xs d) k) =
     set (dd_get d k) \<union> {vf x | x. x \<in> set xs \<and> kf x = k}"
  by (induction xs arbitrary: d) (auto simp: set_dd_get_add)

lemma dd_get_entry: "dd_ok d \<Longrightarrow> (k, vs) \<in> set d \<Longrightarrow> dd_get d k = vs"
  by (induction d) (auto simp: dd_ok_def image_iff)

lemma dd_get_absent_or_entry: "dd_get d k = [] \<or> (k, dd_get d k) \<in> set d"
  by (induction d) (auto split: if_splits)

lemma dd_all_entries:
  assumes "dd_ok d" and "\<And>k. P k []"
  shows "(\<forall>kv \<in> set d. P (fst kv) (snd kv)) \<longleftrightarrow> (\<forall>k. P k (dd_get d k))"
proof
  assume l: "\<forall>kv \<in> set d. P (fst kv) (snd kv)"
  show "\<forall>k. P k (dd_get d k)"
  proof
    fix k
    from dd_get_absent_or_entry [of d k] show "P k (dd_get d k)"
    proof
      assume "dd_get d k = []"
      then show ?thesis using assms(2) by simp
    next
      assume "(k, dd_get d k) \<in> set d"
      with l show ?thesis by fastforce
    qed
  qed
next
  assume r: "\<forall>k. P k (dd_get d k)"
  show "\<forall>kv \<in> set d. P (fst kv) (snd kv)"
  proof
    fix kv assume "kv \<in> set d"
    then have "(fst kv, snd kv) \<in> set d" by simp
    then have "dd_get d (fst kv) = snd kv" using assms(1) by (rule dd_get_entry [rotated])
    with r show "P (fst kv) (snd kv)" by metis
  qed
qed

lemma distinct_short: "distinct vs \<Longrightarrow> length vs \<le> 1 \<longleftrightarrow> \<not> several (set vs)"
proof (cases vs)
  case Nil
  then show ?thesis by (simp add: several_def)
next
  case (Cons a as)
  assume "distinct vs"
  with Cons show ?thesis by (cases as) (auto simp: several_def)
qed

lemma check_block_subjects_None:
  "check_block_subjects msg d = None \<longleftrightarrow> (\<forall>kv \<in> set d. length (snd kv) \<le> 1)"
  by (induction d) (auto split: if_splits)

lemma check_block_subjects_Some:
  "check_block_subjects msg d = Some m \<Longrightarrow> m = msg"
  by (induction d) (auto split: if_splits)

lemma one_tag_list:
  assumes "cls \<noteq> []"
  shows "\<not> (length (remdups (map tag cls)) \<noteq> 1 \<or> None \<in> set (remdups (map tag cls)))
         \<longleftrightarrow> one_tag tag (set cls)"
proof
  assume "\<not> (length (remdups (map tag cls)) \<noteq> 1 \<or> None \<in> set (remdups (map tag cls)))"
  then have l: "length (remdups (map tag cls)) = 1" and n: "None \<notin> tag ` set cls" by auto
  from l obtain x where x: "remdups (map tag cls) = [x]"
    by (cases "remdups (map tag cls)") auto
  then have "set (map tag cls) = {x}" by (metis set_remdups list.simps(15) list.set(1))
  then have s: "tag ` set cls = {x}" by simp
  with n obtain t where "x = Some t" by (cases x) auto
  with s show "one_tag tag (set cls)" unfolding one_tag_def by blast
next
  assume "one_tag tag (set cls)"
  then obtain t where t: "\<forall>cg \<in> set cls. tag cg = Some t" unfolding one_tag_def by blast
  with assms have "set (map tag cls) = {Some t}" by (cases cls) auto
  then have "set (remdups (map tag cls)) = {Some t}" by simp
  moreover have "distinct (remdups (map tag cls))" by simp
  ultimately have "length (remdups (map tag cls)) = 1"
    by (metis distinct_card card_1_singleton_iff One_nat_def)
  with \<open>set (remdups (map tag cls)) = {Some t}\<close> show
    "\<not> (length (remdups (map tag cls)) \<noteq> 1 \<or> None \<in> set (remdups (map tag cls)))"
    by simp
qed

lemma check_block_classes_None:
  assumes "\<forall>kv \<in> set d. distinct (snd kv)"
  shows "check_block_classes jsubj tag d = None \<longleftrightarrow>
         (\<forall>kv \<in> set d. ok_block jsubj tag (fst kv) (set (snd kv)))"
  using assms
proof (induction d)
  case Nil
  then show ?case by simp
next
  case (Cons a d)
  obtain k cls where a: "a = (k, cls)" by (cases a)
  obtain t dd st et sj where k: "k = (t, dd, st, et, sj)" by (cases k)
  from Cons.prems a have dist: "distinct cls" by simp
  from Cons have ih: "check_block_classes jsubj tag d = None \<longleftrightarrow>
         (\<forall>kv \<in> set d. ok_block jsubj tag (fst kv) (set (snd kv)))" by simp
  show ?case
  proof (cases "length cls \<le> 1")
    case True
    then have "\<not> several (set cls)" using distinct_short [OF dist] by simp
    then have "ok_block jsubj tag k (set cls)" by (simp add: ok_block_def)
    with True a k ih show ?thesis by simp
  next
    case False
    then have sev: "several (set cls)" using distinct_short [OF dist] by simp
    from False have ne: "cls \<noteq> []" by auto
    show ?thesis
      using False a k ih sev one_tag_list [OF ne, of tag]
      by (auto simp: ok_block_def block_subject_def Let_def)
  qed
qed

lemma mem_assigns:
  "x \<in> set (assigns post cells) \<longleftrightarrow> fst x \<in> set cells \<and> assigned post (fst x) = Some (snd x)"
  by (cases x) (simp add: set_assigns)

lemma slot_subjects_fold:
  "{fst (snd x) | x. x \<in> set (assigns post cells) \<and> slot_key_of (fst x) (snd x) = k} =
   slot_subjects post cells k"
proof (intro set_eqI iffI)
  fix v
  assume "v \<in> {fst (snd x) | x. x \<in> set (assigns post cells) \<and> slot_key_of (fst x) (snd x) = k}"
  then obtain x where "v = fst (snd x)" "fst x \<in> set cells"
      "assigned post (fst x) = Some (snd x)" "slot_key_of (fst x) (snd x) = k"
    unfolding mem_assigns by blast
  then show "v \<in> slot_subjects post cells k"
    unfolding slot_subjects_def by blast
next
  fix v
  assume "v \<in> slot_subjects post cells k"
  then obtain c p where "v = fst p" "c \<in> set cells" "assigned post c = Some p"
      "slot_key_of c p = k"
    unfolding slot_subjects_def by blast
  then have "(c, p) \<in> set (assigns post cells) \<and> slot_key_of (fst (c, p)) (snd (c, p)) = k
      \<and> v = fst (snd (c, p))"
    by (simp add: mem_assigns)
  then show "v \<in> {fst (snd x) | x. x \<in> set (assigns post cells) \<and> slot_key_of (fst x) (snd x) = k}"
    by blast
qed

lemma block_class_groups_fold:
  "{cell_class (fst x) | x. x \<in> set (assigns post cells) \<and> block_key_of (fst x) (snd x) = k} =
   block_class_groups post cells k"
proof (intro set_eqI iffI)
  fix v
  assume "v \<in> {cell_class (fst x) | x.
             x \<in> set (assigns post cells) \<and> block_key_of (fst x) (snd x) = k}"
  then obtain x where "v = cell_class (fst x)" "fst x \<in> set cells"
      "assigned post (fst x) = Some (snd x)" "block_key_of (fst x) (snd x) = k"
    unfolding mem_assigns by blast
  then show "v \<in> block_class_groups post cells k"
    unfolding block_class_groups_def by blast
next
  fix v
  assume "v \<in> block_class_groups post cells k"
  then obtain c p where "v = cell_class c" "c \<in> set cells" "assigned post c = Some p"
      "block_key_of c p = k"
    unfolding block_class_groups_def by blast
  then have "(c, p) \<in> set (assigns post cells) \<and> block_key_of (fst (c, p)) (snd (c, p)) = k
      \<and> v = cell_class (fst (c, p))"
    by (simp add: mem_assigns)
  then show "v \<in> {cell_class (fst x) | x.
             x \<in> set (assigns post cells) \<and> block_key_of (fst x) (snd x) = k}"
    by blast
qed

lemma collect_subjects:
  "dd_ok (v_block_subjects (collect_blocks post cells))"
  "set (dd_get (v_block_subjects (collect_blocks post cells)) k) = slot_subjects post cells k"
proof -
  show "dd_ok (v_block_subjects (collect_blocks post cells))"
    unfolding collect_blocks_def fold_validate_subjects by (rule dd_ok_fold) simp
  show "set (dd_get (v_block_subjects (collect_blocks post cells)) k) = slot_subjects post cells k"
    unfolding collect_blocks_def fold_validate_subjects set_dd_get_fold slot_subjects_fold
    by simp
qed

lemma collect_classes:
  "dd_ok (v_block_classes (collect_blocks post cells))"
  "set (dd_get (v_block_classes (collect_blocks post cells)) k) = block_class_groups post cells k"
proof -
  show "dd_ok (v_block_classes (collect_blocks post cells))"
    unfolding collect_blocks_def fold_validate_classes by (rule dd_ok_fold) simp
  show "set (dd_get (v_block_classes (collect_blocks post cells)) k) =
        block_class_groups post cells k"
    unfolding collect_blocks_def fold_validate_classes set_dd_get_fold block_class_groups_fold
    by simp
qed

lemma several_empty [simp]: "\<not> several {}"
  by (simp add: several_def)

theorem validate_None_iff:
  "validate msg post cells s = None \<longleftrightarrow>
     (\<forall>c \<in> set cells. \<not> malformed post c) \<and>
     \<not> teacher_double_booked post cells \<and>
     \<not> block_without_joint_subject s post cells \<and>
     \<not> block_without_joint_group s post cells"
proof -
  let ?vs = "collect_blocks post cells"
  have e: "v_error_message ?vs = None \<longleftrightarrow> (\<forall>c \<in> set cells. \<not> malformed post c)"
    by (simp add: collect_blocks_def fold_validate_error)
  have s1: "check_block_subjects msg (v_block_subjects ?vs) = None \<longleftrightarrow>
        (\<forall>kv \<in> set (v_block_subjects ?vs). \<not> several (set (snd kv)))"
  proof -
    have "\<forall>kv \<in> set (v_block_subjects ?vs). distinct (snd kv)"
      using collect_subjects(1) [of post cells] by (simp add: dd_ok_def)
    then show ?thesis
      unfolding check_block_subjects_None by (metis distinct_short)
  qed
  have s2: "(\<forall>kv \<in> set (v_block_subjects ?vs). \<not> several (set (snd kv))) \<longleftrightarrow>
        (\<forall>k. \<not> several (set (dd_get (v_block_subjects ?vs) k)))"
    by (rule dd_all_entries [OF collect_subjects(1), where P = "\<lambda>k vs. \<not> several (set vs)"]) simp
  have s: "check_block_subjects msg (v_block_subjects ?vs) = None \<longleftrightarrow>
        \<not> teacher_double_booked post cells"
    by (simp add: s1 s2 collect_subjects(2) teacher_double_booked_def)
  have c1: "check_block_classes (joint_subject_ids s) (class_to_tag s) (v_block_classes ?vs) = None
        \<longleftrightarrow> (\<forall>kv \<in> set (v_block_classes ?vs).
               ok_block (joint_subject_ids s) (class_to_tag s) (fst kv) (set (snd kv)))"
    using collect_classes(1) [of post cells] by (intro check_block_classes_None) (simp add: dd_ok_def)
  have c2: "(\<forall>kv \<in> set (v_block_classes ?vs).
               ok_block (joint_subject_ids s) (class_to_tag s) (fst kv) (set (snd kv))) \<longleftrightarrow>
        (\<forall>k. ok_block (joint_subject_ids s) (class_to_tag s) k
               (set (dd_get (v_block_classes ?vs) k)))"
    by (rule dd_all_entries [OF collect_classes(1),
          where P = "\<lambda>k vs. ok_block (joint_subject_ids s) (class_to_tag s) k (set vs)"])
       (simp add: ok_block_def)
  have c: "check_block_classes (joint_subject_ids s) (class_to_tag s) (v_block_classes ?vs) = None
        \<longleftrightarrow> \<not> block_without_joint_subject s post cells \<and> \<not> block_without_joint_group s post cells"
  proof -
    have "(\<forall>k. ok_block (joint_subject_ids s) (class_to_tag s) k
               (block_class_groups post cells k)) \<longleftrightarrow>
          \<not> block_without_joint_subject s post cells \<and> \<not> block_without_joint_group s post cells"
      unfolding ok_block_def block_without_joint_subject_def block_without_joint_group_def
      by blast
    with c1 c2 show ?thesis by (simp only: collect_classes(2))
  qed
  show ?thesis
    unfolding validate_def Let_def using e s c by (auto split: if_splits)
qed

lemma set_grid_cells:
  "(cg, d, st, et, idx) \<in> set (grid_cells cgs days slots) \<longleftrightarrow>
     cg \<in> set cgs \<and> d \<in> set days \<and> (st, et) \<in> set slots \<and> idx \<in> {1, 2, 3}"
proof
  assume "(cg, d, st, et, idx) \<in> set (grid_cells cgs days slots)"
  then show "cg \<in> set cgs \<and> d \<in> set days \<and> (st, et) \<in> set slots \<and> idx \<in> {1, 2, 3}"
    by (auto simp: grid_cells_def)
next
  assume a: "cg \<in> set cgs \<and> d \<in> set days \<and> (st, et) \<in> set slots \<and> idx \<in> {1, 2, 3}"
  then have 1: "(cg, d, st, et, idx) \<in> set (map (\<lambda>idx. (cg, d, st, et, idx)) [1, 2, 3])"
    by auto
  have 2: "(cg, d, st, et, idx) \<in>
      set (concat (map (\<lambda>(st, et). map (\<lambda>idx. (cg, d, st, et, idx)) [1, 2, 3]) slots))"
    unfolding set_concat set_map
    by (rule UN_I [of "map (\<lambda>idx. (cg, d, st, et, idx)) [1, 2, 3]"])
       (use a 1 in \<open>auto simp: image_iff intro!: bexI [of _ "(st, et)"]\<close>)
  have 3: "(cg, d, st, et, idx) \<in>
      set (concat (map (\<lambda>d. concat (map (\<lambda>(st, et). map (\<lambda>idx. (cg, d, st, et, idx)) [1, 2, 3]) slots)) days))"
    unfolding set_concat set_map using a 2 by blast
  show "(cg, d, st, et, idx) \<in> set (grid_cells cgs days slots)"
    unfolding grid_cells_def set_concat set_map using a 3 by blast
qed

lemma save_action_rejected:
  "validate msg post (grid_cells cgs days slots) s = Some m \<Longrightarrow>
   save_action msg days slots cgs post s = (None, Some m, s)"
  by (simp add: save_action_def)

lemma timetable_builder_save:
  "is_save req \<Longrightarrow>
   timetable_builder req s =
     respond (fst fixed_timetable_structure) (snd fixed_timetable_structure) req s
       (save_action normal_slot_msg (fst fixed_timetable_structure)
          (snd fixed_timetable_structure) (selected_class_groups req s) (req_POST req) s)"
  by (simp add: timetable_builder_def is_save_def case_prod_beta)

lemma remedial_timetable_builder_save:
  "is_save req \<Longrightarrow>
   remedial_timetable_builder req s =
     respond (fst fixed_remedial_structure) (snd fixed_remedial_structure) req s
       (save_action remedial_slot_msg (fst fixed_remedial_structure)
          (snd fixed_remedial_structure) (selected_class_groups req s) (req_POST req) s)"
  by (simp add: remedial_timetable_builder_def is_save_def case_prod_beta)

lemma rejected_response:
  assumes "validate msg (req_POST req) (submitted_cells structure req s) s \<noteq> None"
  shows "snd (respond (fst structure) (snd structure) req s
            (save_action msg (fst structure) (snd structure) (selected_class_groups req s)
               (req_POST req) s)) = s
       \<and> (\<exists>p m. fst (respond (fst structure) (snd structure) req s
            (save_action msg (fst structure) (snd structure) (selected_class_groups req s)
               (req_POST req) s)) = Rendered p \<and> error_message p = Some m)"
proof -
  from assms obtain m where
    "validate msg (req_POST req)
       (grid_cells (selected_class_groups req s) (fst structure) (snd structure)) s = Some m"
    by (auto simp: submitted_cells_def)
  then show ?thesis
    by (simp add: save_action_rejected respond_def)
qed

text \<open>
  Claim C1. For every save submitted to either builder: if the grid the builder reads
  gives some (teacher, day, start, end) slot two different subjects, or holds a block of
  several class groups whose subject is no active joint subject, or a block of several
  class groups that do not all carry one and the same tag of an active joint set, then
  the page carries an error message and the database after the request is the database
  before it.
\<close>

theorem conflicting_batch_is_rejected:
  assumes "is_save req"
  shows "(teacher_double_booked (req_POST req) (submitted_cells fixed_timetable_structure req s)
          \<or> block_without_joint_subject s (req_POST req)
               (submitted_cells fixed_timetable_structure req s)
          \<or> block_without_joint_group s (req_POST req)
               (submitted_cells fixed_timetable_structure req s)
          \<longrightarrow> snd (timetable_builder req s) = s
              \<and> (\<exists>p m. fst (timetable_builder req s) = Rendered p \<and> error_message p = Some m))
       \<and> (teacher_double_booked (req_POST req) (submitted_cells fixed_remedial_structure req s)
          \<or> block_without_joint_subject s (req_POST req)
               (submitted_cells fixed_remedial_structure req s)
          \<or> block_without_joint_group s (req_POST req)
               (submitted_cells fixed_remedial_structure req s)
          \<longrightarrow> snd (remedial_timetable_builder req s) = s
              \<and> (\<exists>p m. fst (remedial_timetable_builder req s) = Rendered p
                       \<and> error_message p = Some m))"
proof (intro conjI impI)
  assume "teacher_double_booked (req_POST req) (submitted_cells fixed_timetable_structure req s)
          \<or> block_without_joint_subject s (req_POST req)
               (submitted_cells fixed_timetable_structure req s)
          \<or> block_without_joint_group s (req_POST req)
               (submitted_cells fixed_timetable_structure req s)"
  then have v: "validate normal_slot_msg (req_POST req)
                  (submitted_cells fixed_timetable_structure req s) s \<noteq> None"
    unfolding validate_None_iff by blast
  show "snd (timetable_builder req s) = s"
    and "\<exists>p m. fst (timetable_builder req s) = Rendered p \<and> error_message p = Some m"
    using rejected_response [OF v] by (simp_all only: timetable_builder_save [OF assms])
next
  assume "teacher_double_booked (req_POST req) (submitted_cells fixed_remedial_structure req s)
          \<or> block_without_joint_subject s (req_POST req)
               (submitted_cells fixed_remedial_structure req s)
          \<or> block_without_joint_group s (req_POST req)
               (submitted_cells fixed_remedial_structure req s)"
  then have v: "validate remedial_slot_msg (req_POST req)
                  (submitted_cells fixed_remedial_structure req s) s \<noteq> None"
    unfolding validate_None_iff by blast
  show "snd (remedial_timetable_builder req s) = s"
    and "\<exists>p m. fst (remedial_timetable_builder req s) = Rendered p \<and> error_message p = Some m"
    using rejected_response [OF v] by (simp_all only: remedial_timetable_builder_save [OF assms])
qed

lemma several_two: "a \<in> A \<Longrightarrow> b \<in> A \<Longrightarrow> a \<noteq> b \<Longrightarrow> several A"
  unfolding several_def by blast

lemma slot_subjects_member:
  "c \<in> set cells \<Longrightarrow> assigned post c = Some p \<Longrightarrow> slot_key_of c p = k \<Longrightarrow>
   fst p \<in> slot_subjects post cells k"
  unfolding slot_subjects_def by blast

lemma block_class_groups_member:
  "c \<in> set cells \<Longrightarrow> assigned post c = Some p \<Longrightarrow> block_key_of c p = k \<Longrightarrow>
   cell_class c \<in> block_class_groups post cells k"
  unfolding block_class_groups_def by blast

theorem conflicting_batch_is_rejected_witness:
  "snd (timetable_builder double_booked_request school) = school
   \<and> (\<exists>p m. fst (timetable_builder double_booked_request school) = Rendered p
            \<and> error_message p = Some m)
   \<and> snd (remedial_timetable_builder not_joint_request school) = school
   \<and> (\<exists>p m. fst (remedial_timetable_builder not_joint_request school) = Rendered p
            \<and> error_message p = Some m)"
proof -
  let ?r1 = double_booked_request
  let ?r2 = not_joint_request
  have s1: "is_save ?r1" by code_simp
  have s2: "is_save ?r2" by code_simp
  have g1: "selected_class_groups ?r1 school = [1]" by code_simp
  have g2: "selected_class_groups ?r2 school = [1, 3]" by code_simp
  have a1: "assigned (req_POST ?r1) (1, ''Mon'', (8, 0), (8, 40), 1) = Some (1, 7)"
    by code_simp
  have a2: "assigned (req_POST ?r1) (1, ''Mon'', (8, 0), (8, 40), 2) = Some (2, 7)"
    by code_simp
  have b1: "assigned (req_POST ?r2) (1, ''Sat'', (7, 0), (8, 0), 1) = Some (2, 8)"
    by code_simp
  have b2: "assigned (req_POST ?r2) (3, ''Sat'', (7, 0), (8, 0), 1) = Some (2, 8)"
    by code_simp
  have m1: "(1, ''Mon'', (8, 0), (8, 40), 1) \<in> set (submitted_cells fixed_timetable_structure ?r1 school)"
    and m2: "(1, ''Mon'', (8, 0), (8, 40), 2) \<in> set (submitted_cells fixed_timetable_structure ?r1 school)"
    by (simp_all add: submitted_cells_def g1 set_grid_cells fixed_timetable_structure_def)
  have n1: "(1, ''Sat'', (7, 0), (8, 0), 1) \<in> set (submitted_cells fixed_remedial_structure ?r2 school)"
    and n2: "(3, ''Sat'', (7, 0), (8, 0), 1) \<in> set (submitted_cells fixed_remedial_structure ?r2 school)"
    by (simp_all add: submitted_cells_def g2 set_grid_cells fixed_remedial_structure_def)
  have "several (slot_subjects (req_POST ?r1) (submitted_cells fixed_timetable_structure ?r1 school)
          (7, ''Mon'', (8, 0), (8, 40)))"
    using slot_subjects_member [OF m1 a1, of "(7, ''Mon'', (8, 0), (8, 40))"]
          slot_subjects_member [OF m2 a2, of "(7, ''Mon'', (8, 0), (8, 40))"]
    by (intro several_two [of 1 _ 2]) (simp_all add: slot_key_of_def)
  then have h1: "teacher_double_booked (req_POST ?r1)
                   (submitted_cells fixed_timetable_structure ?r1 school)"
    unfolding teacher_double_booked_def by blast
  have "several (block_class_groups (req_POST ?r2)
          (submitted_cells fixed_remedial_structure ?r2 school) (8, ''Sat'', (7, 0), (8, 0), 2))"
    using block_class_groups_member [OF n1 b1, of "(8, ''Sat'', (7, 0), (8, 0), 2)"]
          block_class_groups_member [OF n2 b2, of "(8, ''Sat'', (7, 0), (8, 0), 2)"]
    by (intro several_two [of 1 _ 3]) (simp_all add: block_key_of_def cell_class_def)
  moreover have "block_subject (8, ''Sat'', (7, 0), (8, 0), 2) \<notin> set (joint_subject_ids school)"
    by (simp add: block_subject_def joint_subject_ids_def school_def)
  ultimately have h2: "block_without_joint_subject school (req_POST ?r2)
                   (submitted_cells fixed_remedial_structure ?r2 school)"
    unfolding block_without_joint_subject_def by blast
  show ?thesis
    using conflicting_batch_is_rejected [OF s1, of school] h1
          conflicting_batch_is_rejected [OF s2, of school] h2
    by blast
qed

section \<open>The save action, step by step\<close>

lemma delete_for_tbl:
  "delete_for days slots cg s =
     s\<lparr>timetable_tbl := filter (\<lambda>r. \<not> touched days slots [cg] r) (timetable_tbl s)\<rparr>"
  by (simp add: delete_for_def touched_def conj_commute)

lemma touched_Cons:
  "touched days slots (cg # cgs) r \<longleftrightarrow> touched days slots [cg] r \<or> touched days slots cgs r"
  by (auto simp: touched_def)

lemma touched_Nil [simp]: "\<not> touched days slots [] r"
  by (simp add: touched_def)

lemma clear_rows_eq:
  "clear_rows days slots cgs s =
     s\<lparr>timetable_tbl := filter (\<lambda>r. \<not> touched days slots cgs r) (timetable_tbl s)\<rparr>"
proof (induction cgs arbitrary: s)
  case Nil
  then show ?case by (simp add: clear_rows_def)
next
  case (Cons cg cgs)
  have "clear_rows days slots (cg # cgs) s = clear_rows days slots cgs (delete_for days slots cg s)"
    by (simp add: clear_rows_def)
  also have "\<dots> = s\<lparr>timetable_tbl :=
      filter (\<lambda>r. \<not> touched days slots cgs r)
        (filter (\<lambda>r. \<not> touched days slots [cg] r) (timetable_tbl s))\<rparr>"
    by (simp add: Cons.IH delete_for_tbl)
  also have "\<dots> = s\<lparr>timetable_tbl :=
      filter (\<lambda>r. \<not> touched days slots (cg # cgs) r) (timetable_tbl s)\<rparr>"
    by (simp add: touched_Cons [of days slots cg cgs] conj_commute)
  finally show ?case .
qed

lemma wf_db_clear_rows: "wf_db s \<Longrightarrow> wf_db (clear_rows days slots cgs s)"
  by (simp add: clear_rows_eq wf_db_def)

lemma create_then_add:
  assumes "wf_db s" and "subj \<in> set (subject_tbl s)" and "t \<in> set (teacher_tbl s)"
  shows "(case Timetable_create subj t d st et s of
            Inl e \<Rightarrow> None
          | Inr (pk, s1) \<Rightarrow> Some (class_groups_add pk cg s1)) =
         Some (s\<lparr>timetable_tbl := timetable_tbl s @ [row_of_key (next_pk s) (cg, d, st, et, subj, t)],
                 next_pk := next_pk s + 1\<rparr>)"
proof -
  have "map (\<lambda>r. if tt_pk r = next_pk s \<and> cg \<notin> set (tt_class_groups r)
                  then r\<lparr>tt_class_groups := tt_class_groups r @ [cg]\<rparr> else r)
          (timetable_tbl s) = timetable_tbl s"
    using assms(1) by (intro map_idI) (auto simp: wf_db_def)
  then show ?thesis
    using assms(2,3) by (simp add: Timetable_create_def class_groups_add_def row_of_key_def)
qed

lemma fk_ok_cong:
  "subject_tbl s' = subject_tbl s \<Longrightarrow> teacher_tbl s' = teacher_tbl s \<Longrightarrow> fk_ok s' = fk_ok s"
  by (auto simp: fk_ok_def fun_eq_iff)

lemma db_after_Nil [simp]: "db_after s [] = s"
  by (simp add: db_after_def)

lemma db_after_Cons_bad: "\<not> fk_ok s k \<Longrightarrow> db_after s (k # ks) = s"
  by (simp add: db_after_def)

lemma db_after_Cons_ok:
  assumes "fk_ok s k"
  shows "db_after s (k # ks) =
         db_after (s\<lparr>timetable_tbl := timetable_tbl s @ [row_of_key (next_pk s) k],
                     next_pk := next_pk s + 1\<rparr>) ks"
proof -
  let ?s1 = "s\<lparr>timetable_tbl := timetable_tbl s @ [row_of_key (next_pk s) k],
                 next_pk := next_pk s + 1\<rparr>"
  have "fk_ok ?s1 = fk_ok s" by (rule fk_ok_cong) simp_all
  then show ?thesis using assms by (simp add: db_after_def)
qed

lemma wf_db_append_row:
  "wf_db s \<Longrightarrow>
   wf_db (s\<lparr>timetable_tbl := timetable_tbl s @ [row_of_key (next_pk s) k],
            next_pk := next_pk s + 1\<rparr>)"
  by (auto simp: wf_db_def row_of_key_def split: prod.splits)

lemma created_keys_of_Cons:
  "created_keys_of post (c # cells) =
     (case assigned post c of
        None \<Rightarrow> created_keys_of post cells
      | Some p \<Rightarrow> created_key_of (c, p) # created_keys_of post cells)"
  by (simp add: created_keys_of_def assigns_Cons split: option.splits)

lemma create_cell_cases:
  assumes "\<not> malformed post c" and "wf_db (c_db cs)"
  shows "create_cell post c cs =
     (case assigned post c of
        None \<Rightarrow> (None, cs)
      | Some p \<Rightarrow>
          let k = created_key_of (c, p) in
          if k \<in> set (c_created_keys cs) then (None, cs)
          else if fk_ok (c_db cs) k
          then (None, cs\<lparr>c_created_keys := k # c_created_keys cs,
                  c_db := (c_db cs)\<lparr>timetable_tbl :=
                              timetable_tbl (c_db cs) @ [row_of_key (next_pk (c_db cs)) k],
                            next_pk := next_pk (c_db cs) + 1\<rparr>\<rparr>)
          else (Some IntegrityError, cs\<lparr>c_created_keys := k # c_created_keys cs\<rparr>))"
proof (cases "assigned post c")
  case None
  with assms(1) have "cell_val post c = []" by (simp add: malformed_def assigned_def)
  with None show ?thesis by (simp add: create_cell_empty)
next
  case (Some p)
  obtain cg d st et idx where c: "c = (cg, d, st, et, idx)" by (cases c)
  obtain subj t where p: "p = (subj, t)" by (cases p)
  from Some have ne: "cell_val post c \<noteq> []" and pv: "parse_val (cell_val post c) = Some (subj, t)"
    using parse_val_Nil by (auto simp: assigned_def p)
  show ?thesis
  proof (cases "fk_ok (c_db cs) (cg, d, st, et, subj, t)")
    case True
    then have fk: "subj \<in> set (subject_tbl (c_db cs))" "t \<in> set (teacher_tbl (c_db cs))"
      by (simp_all add: fk_ok_def)
    from create_then_add [OF assms(2) fk, where d = d and st = st and et = et and cg = cg]
    obtain pk s1 where cr: "Timetable_create subj t d st et (c_db cs) = Inr (pk, s1)"
      and ad: "class_groups_add pk cg s1 =
        (c_db cs)\<lparr>timetable_tbl := timetable_tbl (c_db cs) @
             [row_of_key (next_pk (c_db cs)) (cg, d, st, et, subj, t)],
           next_pk := next_pk (c_db cs) + 1\<rparr>"
      by (auto split: sum.splits)
    show ?thesis
      using Some True ne pv cr ad
      by (simp add: create_cell_def c p created_key_of_def Let_def)
  next
    case False
    then have "Timetable_create subj t d st et (c_db cs) = Inl IntegrityError"
      by (auto simp: Timetable_create_def fk_ok_def)
    then show ?thesis
      using Some False ne pv
      by (simp add: create_cell_def c p created_key_of_def Let_def)
  qed
qed

lemma exn_after_Cons:
  "exn_after s (k # ks) = (if fk_ok s k then exn_after s ks else Some IntegrityError)"
  by (simp add: exn_after_def)

lemma create_cells_result:
  assumes "\<forall>c \<in> set cells. \<not> malformed post c" and "wf_db (c_db cs)"
  shows "fst (create_cells post cells cs) =
           exn_after (c_db cs) (first_occurrences (c_created_keys cs) (created_keys_of post cells))
       \<and> c_db (snd (create_cells post cells cs)) =
           db_after (c_db cs) (first_occurrences (c_created_keys cs) (created_keys_of post cells))
       \<and> c_error_message (snd (create_cells post cells cs)) = c_error_message cs"
  using assms
proof (induction cells arbitrary: cs)
  case Nil
  then show ?case by (simp add: created_keys_of_def exn_after_def)
next
  case (Cons c cells)
  from Cons.prems have nm: "\<not> malformed post c" and rest: "\<forall>c \<in> set cells. \<not> malformed post c"
    by simp_all
  note cc = create_cell_cases [OF nm Cons.prems(2)]
  show ?case
  proof (cases "assigned post c")
    case None
    then show ?thesis
      using cc Cons.IH [OF rest Cons.prems(2)] by (simp add: created_keys_of_Cons)
  next
    case (Some p)
    let ?k = "created_key_of (c, p)"
    show ?thesis
    proof (cases "?k \<in> set (c_created_keys cs)")
      case True
      then show ?thesis
        using cc Some Cons.IH [OF rest Cons.prems(2)] by (simp add: created_keys_of_Cons)
    next
      case notseen: False
      show ?thesis
      proof (cases "fk_ok (c_db cs) ?k")
        case False
        then show ?thesis
          using cc Some notseen
          by (simp add: created_keys_of_Cons exn_after_Cons db_after_Cons_bad)
      next
        case True
        let ?s1 = "(c_db cs)\<lparr>timetable_tbl :=
                              timetable_tbl (c_db cs) @ [row_of_key (next_pk (c_db cs)) ?k],
                            next_pk := next_pk (c_db cs) + 1\<rparr>"
        let ?cs1 = "cs\<lparr>c_created_keys := ?k # c_created_keys cs, c_db := ?s1\<rparr>"
        let ?ks = "first_occurrences (?k # c_created_keys cs) (created_keys_of post cells)"
        have step: "create_cell post c cs = (None, ?cs1)"
          using cc Some notseen True by (simp add: Let_def)
        have run: "create_cells post (c # cells) cs = create_cells post cells ?cs1"
          by (simp add: step)
        have keys: "first_occurrences (c_created_keys cs) (created_keys_of post (c # cells)) =
                    ?k # ?ks"
          using Some notseen by (simp add: created_keys_of_Cons)
        have wf1: "wf_db (c_db ?cs1)"
          using wf_db_append_row [OF Cons.prems(2)] by simp
        have fk1: "fk_ok ?s1 = fk_ok (c_db cs)"
          by (rule fk_ok_cong) simp_all
        have ex1: "exn_after ?s1 ?ks = exn_after (c_db cs) (?k # ?ks)"
          using True by (simp add: exn_after_def fk1)
        have db1: "db_after ?s1 ?ks = db_after (c_db cs) (?k # ?ks)"
          by (rule db_after_Cons_ok [OF True, symmetric])
        from Cons.IH [OF rest wf1]
        have "fst (create_cells post cells ?cs1) = exn_after ?s1 ?ks"
          and "c_db (snd (create_cells post cells ?cs1)) = db_after ?s1 ?ks"
          and "c_error_message (snd (create_cells post cells ?cs1)) = c_error_message cs"
          by simp_all
        then show ?thesis
          unfolding run keys ex1 db1 by simp
      qed
    qed
  qed
qed

lemma save_action_accepted:
  assumes "validate msg post (grid_cells cgs days slots) s = None" and "wf_db s"
  shows "save_action msg days slots cgs post s =
     (exn_after s (keys_to_create post (grid_cells cgs days slots)), None,
      db_after (clear_rows days slots cgs s) (keys_to_create post (grid_cells cgs days slots)))"
proof -
  let ?cells = "grid_cells cgs days slots"
  let ?cs = "\<lparr>c_error_message = None, c_created_keys = [],
              c_db = clear_rows days slots cgs s\<rparr>"
  from assms(1) have nm: "\<forall>c \<in> set ?cells. \<not> malformed post c"
    by (simp add: validate_None_iff)
  have wf: "wf_db (c_db ?cs)" using wf_db_clear_rows [OF assms(2)] by simp
  have fk: "fk_ok (clear_rows days slots cgs s) = fk_ok s"
    by (rule fk_ok_cong) (simp_all add: clear_rows_eq)
  have ex: "exn_after (clear_rows days slots cgs s) ks = exn_after s ks" for ks
    by (simp only: exn_after_def fk)
  obtain e cs1 where cr: "create_cells post ?cells ?cs = (e, cs1)"
    by (cases "create_cells post ?cells ?cs")
  from create_cells_result [OF nm wf] cr
  have "e = exn_after s (keys_to_create post ?cells)"
    and "c_db cs1 = db_after (clear_rows days slots cgs s) (keys_to_create post ?cells)"
    and "c_error_message cs1 = None"
    by (simp_all add: keys_to_create_def ex)
  then show ?thesis
    using assms(1) cr by (simp add: save_action_def Let_def)
qed

section \<open>Accepted saves\<close>

lemma timetable_builder_save_view:
  "is_save req \<Longrightarrow>
   timetable_builder req s = save_view normal_slot_msg fixed_timetable_structure req s"
  by (simp add: timetable_builder_save save_view_def)

lemma remedial_timetable_builder_save_view:
  "is_save req \<Longrightarrow>
   remedial_timetable_builder req s = save_view remedial_slot_msg fixed_remedial_structure req s"
  by (simp add: remedial_timetable_builder_save save_view_def)

lemma save_view_rejected:
  assumes "validate msg (req_POST req) (submitted_cells structure req s) s = Some m"
  shows "snd (save_view msg structure req s) = s"
    and "\<not> accepted (save_view msg structure req s)"
  using assms
  by (simp_all add: save_view_def submitted_cells_def save_action_rejected respond_def
      accepted_def)

lemma save_view_validated:
  assumes "validate msg (req_POST req) (submitted_cells structure req s) s = None"
    and "wf_db s"
  shows "snd (save_view msg structure req s) =
           db_after (clear_rows (fst structure) (snd structure) (selected_class_groups req s) s)
             (keys_to_create (req_POST req) (submitted_cells structure req s))"
    and "accepted (save_view msg structure req s) \<longleftrightarrow>
           list_all (fk_ok s) (keys_to_create (req_POST req) (submitted_cells structure req s))"
    and "(\<exists>e. fst (save_view msg structure req s) = Raised e) \<longleftrightarrow>
           \<not> list_all (fk_ok s) (keys_to_create (req_POST req) (submitted_cells structure req s))"
  using assms
  by (simp_all add: save_view_def submitted_cells_def save_action_accepted respond_def
      accepted_def exn_after_def)

lemma accepted_save_view:
  assumes "accepted (save_view msg structure req s)"
  shows "validate msg (req_POST req) (submitted_cells structure req s) s = None"
proof (cases "validate msg (req_POST req) (submitted_cells structure req s) s")
  case None
  then show ?thesis .
next
  case (Some m)
  with save_view_rejected(2) [OF Some] assms show ?thesis by simp
qed

lemma takeWhile_all: "list_all P xs \<Longrightarrow> takeWhile P xs = xs"
  by (induction xs) simp_all

lemma db_after_all_ok:
  "list_all (fk_ok s) ks \<Longrightarrow>
   db_after s ks = s\<lparr>timetable_tbl := timetable_tbl s @ new_rows (next_pk s) ks,
                     next_pk := next_pk s + int (length ks)\<rparr>"
  by (simp add: db_after_def takeWhile_all)

lemma distinct_first_occurrences:
  "distinct (first_occurrences seen ks) \<and> set (first_occurrences seen ks) = set ks - set seen"
  by (induction ks arbitrary: seen) auto

lemma keys_to_create_props:
  "distinct (keys_to_create post cells)"
  "set (keys_to_create post cells) = set (created_keys_of post cells)"
  by (simp_all add: keys_to_create_def distinct_first_occurrences)

lemma tt_class_groups_new_rows:
  "map tt_class_groups (new_rows pk ks) = map (\<lambda>k. [fst k]) ks"
  by (induction ks arbitrary: pk) (simp_all add: row_of_key_def split: prod.splits)

lemma row_content_new_rows:
  "map row_content (new_rows pk ks) = map (\<lambda>k. row_content (row_of_key 0 k)) ks"
  by (induction ks arbitrary: pk) (simp_all add: row_of_key_def row_content_def split: prod.splits)

lemma fk_ok_clear_rows: "fk_ok (clear_rows days slots cgs s) = fk_ok s"
  by (rule fk_ok_cong) (simp_all add: clear_rows_eq)

lemma accepted_save_table:
  assumes "accepted (save_view msg structure req s)" and "wf_db s"
  shows "timetable_tbl (snd (save_view msg structure req s)) =
           filter (\<lambda>r. \<not> touched_by structure req s r) (timetable_tbl s) @
           new_rows (next_pk s) (keys_to_create (req_POST req) (submitted_cells structure req s))"
    and "next_pk (snd (save_view msg structure req s)) =
           next_pk s + int (length (keys_to_create (req_POST req)
                                      (submitted_cells structure req s)))"
proof -
  let ?ks = "keys_to_create (req_POST req) (submitted_cells structure req s)"
  let ?c = "clear_rows (fst structure) (snd structure) (selected_class_groups req s) s"
  note v = accepted_save_view [OF assms(1)]
  from save_view_validated(2) [OF v assms(2)] assms(1) have ok: "list_all (fk_ok s) ?ks"
    by simp
  then have ok': "list_all (fk_ok ?c) ?ks" by (simp add: fk_ok_clear_rows)
  have e: "snd (save_view msg structure req s) = db_after ?c ?ks"
    by (rule save_view_validated(1) [OF v assms(2)])
  show "timetable_tbl (snd (save_view msg structure req s)) =
           filter (\<lambda>r. \<not> touched_by structure req s r) (timetable_tbl s) @
           new_rows (next_pk s) ?ks"
    and "next_pk (snd (save_view msg structure req s)) = next_pk s + int (length ?ks)"
    unfolding e db_after_all_ok [OF ok'] by (simp_all add: clear_rows_eq touched_by_def)
qed

section \<open>Evaluating a save through its non-empty cells\<close>

lemma collect_blocks_skip:
  "collect_blocks post cells = collect_blocks post (nonempty_cells post cells)"
  unfolding collect_blocks_def nonempty_cells_def by (rule fold_validate_skip)

lemma validate_skip:
  "validate msg post cells s = validate msg post (nonempty_cells post cells) s"
  unfolding validate_def by (subst collect_blocks_skip) (rule refl)

lemma assigns_skip: "assigns post cells = assigns post (nonempty_cells post cells)"
  by (induction cells)
     (auto simp: assigns_Cons nonempty_cells_def assigned_def parse_val_Nil split: option.splits)

lemma keys_to_create_skip:
  "keys_to_create post cells = keys_to_create post (nonempty_cells post cells)"
  unfolding keys_to_create_def created_keys_of_def by (subst assigns_skip) (rule refl)

lemma save_view_state:
  assumes "wf_db s"
    and "validate msg (req_POST req) (nonempty_cells (req_POST req)
           (submitted_cells structure req s)) s = None"
    and "keys_to_create (req_POST req) (nonempty_cells (req_POST req)
           (submitted_cells structure req s)) = ks"
  shows "snd (save_view msg structure req s) =
           s\<lparr>timetable_tbl :=
                filter (\<lambda>r. \<not> touched_by structure req s r) (timetable_tbl s) @
                new_rows (next_pk s) (takeWhile (fk_ok s) ks),
             next_pk := next_pk s + int (length (takeWhile (fk_ok s) ks))\<rparr>"
    and "accepted (save_view msg structure req s) \<longleftrightarrow> list_all (fk_ok s) ks"
    and "(\<exists>e. fst (save_view msg structure req s) = Raised e) \<longleftrightarrow> \<not> list_all (fk_ok s) ks"
proof -
  from assms(2) have v: "validate msg (req_POST req) (submitted_cells structure req s) s = None"
    by (simp add: validate_skip [symmetric])
  from assms(3) have k: "keys_to_create (req_POST req) (submitted_cells structure req s) = ks"
    by (simp add: keys_to_create_skip [symmetric])
  show "snd (save_view msg structure req s) =
           s\<lparr>timetable_tbl :=
                filter (\<lambda>r. \<not> touched_by structure req s r) (timetable_tbl s) @
                new_rows (next_pk s) (takeWhile (fk_ok s) ks),
             next_pk := next_pk s + int (length (takeWhile (fk_ok s) ks))\<rparr>"
    unfolding save_view_validated(1) [OF v assms(1)] k db_after_def fk_ok_clear_rows
    by (simp add: clear_rows_eq touched_by_def)
  show "accepted (save_view msg structure req s) \<longleftrightarrow> list_all (fk_ok s) ks"
    using save_view_validated(2) [OF v assms(1)] k by simp
  show "(\<exists>e. fst (save_view msg structure req s) = Raised e) \<longleftrightarrow> \<not> list_all (fk_ok s) ks"
    using save_view_validated(3) [OF v assms(1)] k by simp
qed

lemma wf_school: "wf_db school"
  by (simp add: wf_db_def school_def)

lemma is_save_joint_request: "is_save joint_request"
  by code_simp

lemma nonempty_joint_request:
  "nonempty_cells (req_POST joint_request)
     (submitted_cells fixed_timetable_structure joint_request school) =
   [(1, ''Mon'', (8, 0), (8, 40), 1), (2, ''Mon'', (8, 0), (8, 40), 1)]"
  by code_simp

lemma validate_joint_request:
  "validate normal_slot_msg (req_POST joint_request)
     [(1, ''Mon'', (8, 0), (8, 40), 1), (2, ''Mon'', (8, 0), (8, 40), 1)] school = None"
  by code_simp

lemma keys_joint_request:
  "keys_to_create (req_POST joint_request)
     [(1, ''Mon'', (8, 0), (8, 40), 1), (2, ''Mon'', (8, 0), (8, 40), 1)] =
   [(1, ''Mon'', (8, 0), (8, 40), 1, 7), (2, ''Mon'', (8, 0), (8, 40), 1, 7)]"
  by code_simp

lemma joint_request_saved:
  "accepted (timetable_builder joint_request school)"
  "snd (timetable_builder joint_request school) =
     school\<lparr>timetable_tbl := [math_mon_8 1 [1], math_mon_8 2 [2]], next_pk := 3\<rparr>"
proof -
  note st = save_view_state [OF wf_school, of normal_slot_msg joint_request
      fixed_timetable_structure, unfolded nonempty_joint_request,
      OF validate_joint_request keys_joint_request]
  have ok: "list_all (fk_ok school)
      [(1, ''Mon'', (8, 0), (8, 40), 1, 7), (2, ''Mon'', (8, 0), (8, 40), 1, 7)]"
    by (simp add: fk_ok_def school_def)
  show "accepted (timetable_builder joint_request school)"
    unfolding timetable_builder_save_view [OF is_save_joint_request] st(2) by (rule ok)
  show "snd (timetable_builder joint_request school) =
     school\<lparr>timetable_tbl := [math_mon_8 1 [1], math_mon_8 2 [2]], next_pk := 3\<rparr>"
    unfolding timetable_builder_save_view [OF is_save_joint_request] st(1)
    by (simp add: ok [unfolded list_all_iff] school_def row_of_key_def math_mon_8_def
        fk_ok_def)
qed

section \<open>One row for each class group of a lesson\<close>

text \<open>
  Claim C3, as stated, fails on Scenario B: the accepted save leaves two rows for the one
  logical lesson, the first attached to class group 1 only and the second to class group
  2 only; no row is attached to both.
\<close>

theorem joint_lesson_is_two_rows:
  "accepted (timetable_builder joint_request school)
   \<and> timetable_tbl (snd (timetable_builder joint_request school)) =
       [math_mon_8 1 [1], math_mon_8 2 [2]]
   \<and> lesson_key (math_mon_8 1 [1]) = lesson_key (math_mon_8 2 [2])"
  by (simp add: joint_request_saved lesson_key_def math_mon_8_def)

text \<open>
  Claim C3, as the code has it. An accepted save of the normal builder leaves the
  untouched rows and, after them, one new row for each distinct (class group, day, start,
  end, subject, teacher) that a decoded cell of the grid names, in the order of first
  occurrence; a value repeated in the sub-indices of one cell yields one row. Every new
  row is attached to the one class group of its cell, so a lesson shared by two class
  groups is two rows with the same teacher, day, start, end and subject.
\<close>

theorem accepted_save_creates_one_row_per_class_group:
  assumes "is_save req" and "wf_db s" and "accepted (timetable_builder req s)"
  shows "timetable_tbl (snd (timetable_builder req s)) =
           filter (\<lambda>r. \<not> touched_by fixed_timetable_structure req s r) (timetable_tbl s) @
           new_rows (next_pk s)
             (keys_to_create (req_POST req) (submitted_cells fixed_timetable_structure req s))
       \<and> distinct (keys_to_create (req_POST req)
                     (submitted_cells fixed_timetable_structure req s))
       \<and> set (keys_to_create (req_POST req) (submitted_cells fixed_timetable_structure req s)) =
           set (created_keys_of (req_POST req)
                  (submitted_cells fixed_timetable_structure req s))
       \<and> map tt_class_groups
            (new_rows (next_pk s)
               (keys_to_create (req_POST req)
                  (submitted_cells fixed_timetable_structure req s))) =
           map (\<lambda>k. [fst k])
             (keys_to_create (req_POST req) (submitted_cells fixed_timetable_structure req s))"
  using accepted_save_table(1) [OF assms(3) [unfolded timetable_builder_save_view [OF assms(1)]]
          assms(2)]
    keys_to_create_props tt_class_groups_new_rows
  unfolding timetable_builder_save_view [OF assms(1)]
  by blast

lemma is_save_repeated_request: "is_save repeated_request"
  by code_simp

lemma nonempty_repeated_request:
  "nonempty_cells (req_POST repeated_request)
     (submitted_cells fixed_timetable_structure repeated_request school) =
   [(1, ''Mon'', (8, 0), (8, 40), 1), (1, ''Mon'', (8, 0), (8, 40), 2),
    (1, ''Mon'', (8, 0), (8, 40), 3)]"
  by code_simp

lemma validate_repeated_request:
  "validate normal_slot_msg (req_POST repeated_request)
     [(1, ''Mon'', (8, 0), (8, 40), 1), (1, ''Mon'', (8, 0), (8, 40), 2),
      (1, ''Mon'', (8, 0), (8, 40), 3)] school = None"
  by code_simp

lemma created_keys_repeated_request:
  "created_keys_of (req_POST repeated_request)
     [(1, ''Mon'', (8, 0), (8, 40), 1), (1, ''Mon'', (8, 0), (8, 40), 2),
      (1, ''Mon'', (8, 0), (8, 40), 3)] =
   [(1, ''Mon'', (8, 0), (8, 40), 1, 7), (1, ''Mon'', (8, 0), (8, 40), 1, 7),
    (1, ''Mon'', (8, 0), (8, 40), 1, 7)]"
  by code_simp

lemma repeated_request_accepted: "accepted (timetable_builder repeated_request school)"
proof -
  have k: "keys_to_create (req_POST repeated_request)
     [(1, ''Mon'', (8, 0), (8, 40), 1), (1, ''Mon'', (8, 0), (8, 40), 2),
      (1, ''Mon'', (8, 0), (8, 40), 3)] = [(1, ''Mon'', (8, 0), (8, 40), 1, 7)]"
    unfolding keys_to_create_def created_keys_repeated_request by simp
  note st = save_view_state [OF wf_school, of normal_slot_msg repeated_request
      fixed_timetable_structure, unfolded nonempty_repeated_request,
      OF validate_repeated_request k]
  show ?thesis
    unfolding timetable_builder_save_view [OF is_save_repeated_request] st(2)
    by (simp add: fk_ok_def school_def)
qed

theorem accepted_save_creates_one_row_per_class_group_witness:
  "timetable_tbl (snd (timetable_builder repeated_request school)) = [math_mon_8 1 [1]]
   \<and> created_keys_of (req_POST repeated_request)
        (submitted_cells fixed_timetable_structure repeated_request school) =
      [(1, ''Mon'', (8, 0), (8, 40), 1, 7), (1, ''Mon'', (8, 0), (8, 40), 1, 7),
       (1, ''Mon'', (8, 0), (8, 40), 1, 7)]
   \<and> timetable_tbl (snd (timetable_builder joint_request school)) =
        [math_mon_8 1 [1], math_mon_8 2 [2]]"
proof -
  have ck: "created_keys_of (req_POST repeated_request)
        (submitted_cells fixed_timetable_structure repeated_request school) =
      [(1, ''Mon'', (8, 0), (8, 40), 1, 7), (1, ''Mon'', (8, 0), (8, 40), 1, 7),
       (1, ''Mon'', (8, 0), (8, 40), 1, 7)]"
    unfolding created_keys_of_def
    by (subst assigns_skip)
       (simp only: nonempty_repeated_request created_keys_repeated_request [unfolded created_keys_of_def])
  have k: "keys_to_create (req_POST repeated_request)
        (submitted_cells fixed_timetable_structure repeated_request school) =
      [(1, ''Mon'', (8, 0), (8, 40), 1, 7)]"
    unfolding keys_to_create_def ck by simp
  have k2: "keys_to_create (req_POST joint_request)
        (submitted_cells fixed_timetable_structure joint_request school) =
      [(1, ''Mon'', (8, 0), (8, 40), 1, 7), (2, ''Mon'', (8, 0), (8, 40), 1, 7)]"
    by (subst keys_to_create_skip) (simp only: nonempty_joint_request keys_joint_request)
  from accepted_save_creates_one_row_per_class_group
         [OF is_save_repeated_request wf_school repeated_request_accepted]
  have "timetable_tbl (snd (timetable_builder repeated_request school)) = [math_mon_8 1 [1]]"
    unfolding k by (simp add: school_def row_of_key_def math_mon_8_def)
  moreover
  from accepted_save_creates_one_row_per_class_group
         [OF is_save_joint_request wf_school joint_request_saved(1)]
  have "timetable_tbl (snd (timetable_builder joint_request school)) =
        [math_mon_8 1 [1], math_mon_8 2 [2]]"
    unfolding k2 by (simp add: school_def row_of_key_def math_mon_8_def)
  ultimately show ?thesis using ck by simp
qed

section \<open>Saving twice\<close>

lemma new_rows_pk_bounds:
  "r \<in> set (new_rows pk ks) \<Longrightarrow> pk \<le> tt_pk r \<and> tt_pk r < pk + int (length ks)"
proof (induction ks arbitrary: pk)
  case Nil
  then show ?case by simp
next
  case (Cons k ks)
  from Cons.prems have "r = row_of_key pk k \<or> r \<in> set (new_rows (pk + 1) ks)" by simp
  then show ?case
  proof
    assume "r = row_of_key pk k"
    then show ?thesis by (simp add: row_of_key_def split: prod.splits)
  next
    assume "r \<in> set (new_rows (pk + 1) ks)"
    from Cons.IH [OF this] show ?thesis by simp
  qed
qed

lemma wf_db_extend:
  assumes "wf_db s" and "set tbl \<subseteq> set (timetable_tbl s)"
  shows "wf_db (s\<lparr>timetable_tbl := tbl @ new_rows (next_pk s) ks,
                  next_pk := next_pk s + int (length ks)\<rparr>)"
  using assms new_rows_pk_bounds [of _ "next_pk s" ks] by (fastforce simp: wf_db_def)

lemma validate_cong:
  "joint_subject_tbl s' = joint_subject_tbl s \<Longrightarrow> joint_set_tbl s' = joint_set_tbl s \<Longrightarrow>
   validate msg post cells s' = validate msg post cells s"
  by (simp add: validate_def joint_subject_ids_def class_to_tag_def Let_def)

lemma selected_class_groups_cong:
  "class_group_tbl s' = class_group_tbl s \<Longrightarrow>
   selected_class_groups req s' = selected_class_groups req s"
  by (simp add: selected_class_groups_def)

lemma created_key_in_grid:
  assumes "k \<in> set (created_keys_of post (grid_cells cgs days slots))"
  shows "touched days slots cgs (row_of_key pk k)"
proof -
  from assms obtain x where x: "x \<in> set (assigns post (grid_cells cgs days slots))"
    and k: "k = created_key_of x"
    by (auto simp: created_keys_of_def)
  obtain cg d st et idx p where xx: "x = ((cg, d, st, et, idx), p)"
    by (metis prod_cases5 surj_pair)
  from x have "(cg, d, st, et, idx) \<in> set (grid_cells cgs days slots)"
    by (simp add: mem_assigns xx)
  then have g: "cg \<in> set cgs" "d \<in> set days" "(st, et) \<in> set slots"
    by (simp_all add: set_grid_cells)
  from g(3) have st: "st \<in> fst ` set slots" by force
  obtain subj t where p: "p = (subj, t)" by (cases p)
  have kk: "k = (cg, d, st, et, subj, t)"
    by (simp add: k xx p created_key_of_def)
  show ?thesis
    unfolding kk using g(1,2) st
    by (simp add: touched_def in_scope_def row_of_key_def)
qed

lemma new_rows_touched:
  assumes "set ks \<subseteq> set (created_keys_of post (grid_cells cgs days slots))"
  shows "filter (\<lambda>r. \<not> touched days slots cgs r) (new_rows pk ks) = []"
  using assms
proof (induction ks arbitrary: pk)
  case Nil
  then show ?case by simp
next
  case (Cons k ks)
  then show ?case using created_key_in_grid [of k post cgs days slots pk] by simp
qed

lemma set_takeWhile_subset: "set (takeWhile P xs) \<subseteq> set xs"
  by (auto dest: set_takeWhileD)

lemma untouched_after_new_rows:
  assumes "set ks \<subseteq> set (keys_to_create post (grid_cells cgs days slots))"
  shows "filter (\<lambda>r. \<not> touched days slots cgs r)
           (filter (\<lambda>r. \<not> touched days slots cgs r) tbl @ new_rows pk ks) =
         filter (\<lambda>r. \<not> touched days slots cgs r) tbl"
proof -
  from assms have "set ks \<subseteq> set (created_keys_of post (grid_cells cgs days slots))"
    by (simp add: keys_to_create_props(2))
  from new_rows_touched [OF this] show ?thesis by simp
qed

lemma resave_same_content:
  assumes "accepted (save_view msg structure req s)" and "wf_db s"
  shows "accepted (save_view msg structure req (snd (save_view msg structure req s)))
       \<and> map row_content
            (timetable_tbl (snd (save_view msg structure req
                                   (snd (save_view msg structure req s))))) =
          map row_content (timetable_tbl (snd (save_view msg structure req s)))"
proof -
  let ?s1 = "snd (save_view msg structure req s)"
  let ?cells = "submitted_cells structure req s"
  let ?ks = "keys_to_create (req_POST req) ?cells"
  let ?kept = "filter (\<lambda>r. \<not> touched_by structure req s r) (timetable_tbl s)"
  note v = accepted_save_view [OF assms(1)]
  from save_view_validated(2) [OF v assms(2)] assms(1) have ok: "list_all (fk_ok s) ?ks"
    by simp
  have s1: "?s1 = s\<lparr>timetable_tbl := ?kept @ new_rows (next_pk s) ?ks,
                     next_pk := next_pk s + int (length ?ks)\<rparr>"
    unfolding save_view_validated(1) [OF v assms(2)] db_after_def fk_ok_clear_rows
      takeWhile_all [OF ok]
    by (simp add: clear_rows_eq touched_by_def)
  have wf1: "wf_db ?s1"
    unfolding s1 by (rule wf_db_extend [OF assms(2)]) simp
  have sel: "selected_class_groups req ?s1 = selected_class_groups req s"
    by (rule selected_class_groups_cong) (simp add: s1)
  have cells1: "submitted_cells structure req ?s1 = ?cells"
    by (simp add: submitted_cells_def sel)
  have v1: "validate msg (req_POST req) (submitted_cells structure req ?s1) ?s1 = None"
    unfolding cells1 using v validate_cong [of ?s1 s msg "req_POST req" ?cells]
    by (simp add: s1)
  have fk1: "fk_ok ?s1 = fk_ok s"
    by (rule fk_ok_cong) (simp_all add: s1)
  have acc1: "accepted (save_view msg structure req ?s1)"
    unfolding save_view_validated(2) [OF v1 wf1] cells1 fk1 by (rule ok)
  have t1: "touched_by structure req ?s1 = touched_by structure req s"
    by (simp add: touched_by_def sel fun_eq_iff)
  have "timetable_tbl (snd (save_view msg structure req ?s1)) =
          filter (\<lambda>r. \<not> touched_by structure req s r) (timetable_tbl ?s1) @
          new_rows (next_pk ?s1) ?ks"
    using accepted_save_table(1) [OF acc1 wf1] by (simp only: cells1 t1)
  also have "filter (\<lambda>r. \<not> touched_by structure req s r) (timetable_tbl ?s1) = ?kept"
    unfolding touched_by_def
    using untouched_after_new_rows [of ?ks "req_POST req" "selected_class_groups req s"
        "fst structure" "snd structure" "timetable_tbl s" "next_pk s"]
    by (simp add: s1 touched_by_def submitted_cells_def)
  finally have "map row_content (timetable_tbl (snd (save_view msg structure req ?s1))) =
      map row_content (?kept @ new_rows (next_pk s) ?ks)"
    by (simp add: row_content_new_rows)
  then show ?thesis using acc1 by (simp add: s1)
qed

text \<open>
  Claim C7. A save that the normal builder accepted, submitted a second time to the
  database it left, is accepted again and leaves a table with the same rows in the same
  order, row for row equal in subject, teacher, day, start, end and class groups; only
  the primary keys of the recreated rows are new.
\<close>

theorem resaving_is_idempotent:
  assumes "is_save req" and "wf_db s" and "accepted (timetable_builder req s)"
  shows "accepted (timetable_builder req (snd (timetable_builder req s)))
       \<and> map row_content
            (timetable_tbl (snd (timetable_builder req (snd (timetable_builder req s))))) =
          map row_content (timetable_tbl (snd (timetable_builder req s)))
       \<and> length (timetable_tbl (snd (timetable_builder req (snd (timetable_builder req s))))) =
          length (timetable_tbl (snd (timetable_builder req s)))"
proof -
  let ?s1 = "snd (timetable_builder req s)"
  have b: "timetable_builder req s' = save_view normal_slot_msg fixed_timetable_structure req s'"
    for s' by (rule timetable_builder_save_view [OF assms(1)])
  from assms(3) have a: "accepted (save_view normal_slot_msg fixed_timetable_structure req s)"
    by (simp only: b)
  from resave_same_content [OF a assms(2)]
  have 1: "accepted (timetable_builder req ?s1)"
    and 2: "map row_content (timetable_tbl (snd (timetable_builder req ?s1))) =
            map row_content (timetable_tbl ?s1)"
    by (simp_all only: b)
  from 2 have "length (map row_content (timetable_tbl (snd (timetable_builder req ?s1)))) =
               length (map row_content (timetable_tbl ?s1))"
    by (rule arg_cong)
  then have 3: "length (timetable_tbl (snd (timetable_builder req ?s1))) =
                length (timetable_tbl ?s1)"
    by (simp only: length_map)
  from 1 2 3 show ?thesis by (intro conjI)
qed

theorem resaving_is_idempotent_witness:
  "accepted (timetable_builder joint_request (snd (timetable_builder joint_request school)))
   \<and> map row_content
        (timetable_tbl (snd (timetable_builder joint_request
                               (snd (timetable_builder joint_request school))))) =
      [(Some 1, 7, ''Mon'', (8, 0), (8, 40), [1]), (Some 1, 7, ''Mon'', (8, 0), (8, 40), [2])]
   \<and> length (timetable_tbl (snd (timetable_builder joint_request
                               (snd (timetable_builder joint_request school))))) = 2"
  using resaving_is_idempotent [OF is_save_joint_request wf_school joint_request_saved(1)]
  by (simp add: joint_request_saved(2) row_content_def math_mon_8_def)

section \<open>Saves over different selections\<close>

lemma submitted_cells_with_rows:
  "submitted_cells structure req (with_rows rows pk) = submitted_cells structure req school"
  by (simp add: submitted_cells_def selected_class_groups_def with_rows_def)

lemma validate_with_rows:
  "validate msg post cells (with_rows rows pk) = validate msg post cells school"
  by (rule validate_cong) (simp_all add: with_rows_def)

lemma fk_ok_with_rows: "fk_ok (with_rows rows pk) = fk_ok school"
  by (rule fk_ok_cong) (simp_all add: with_rows_def)

lemma touched_by_with_rows:
  "touched_by structure req (with_rows rows pk) = touched_by structure req school"
  by (simp add: touched_by_def selected_class_groups_def with_rows_def fun_eq_iff)

lemma with_rows_school: "with_rows [] 1 = school"
  by (simp add: with_rows_def school_def)

lemma is_save_math_request: "is_save math_request"
  by code_simp

lemma is_save_physics_request: "is_save physics_request"
  by code_simp

lemma nonempty_math_request:
  "nonempty_cells (req_POST math_request)
     (submitted_cells fixed_timetable_structure math_request school) =
   [(1, ''Mon'', (8, 0), (8, 40), 1)]"
  by code_simp

lemma nonempty_physics_request:
  "nonempty_cells (req_POST physics_request)
     (submitted_cells fixed_timetable_structure physics_request school) =
   [(2, ''Mon'', (8, 0), (8, 40), 1)]"
  by code_simp

lemma validate_math_request:
  "validate normal_slot_msg (req_POST math_request) [(1, ''Mon'', (8, 0), (8, 40), 1)] school =
   None"
  by code_simp

lemma validate_physics_request:
  "validate normal_slot_msg (req_POST physics_request) [(2, ''Mon'', (8, 0), (8, 40), 1)]
     school = None"
  by code_simp

lemma keys_math_request:
  "keys_to_create (req_POST math_request) [(1, ''Mon'', (8, 0), (8, 40), 1)] =
   [(1, ''Mon'', (8, 0), (8, 40), 1, 7)]"
  by code_simp

lemma keys_physics_request:
  "keys_to_create (req_POST physics_request) [(2, ''Mon'', (8, 0), (8, 40), 1)] =
   [(2, ''Mon'', (8, 0), (8, 40), 2, 7)]"
  by code_simp

lemma touched_by_eval:
  "touched_by structure req school r \<longleftrightarrow>
     in_scope (fst structure) (snd structure) r \<and>
     (\<exists>cg \<in> set (selected_class_groups req school). cg \<in> set (tt_class_groups r))"
  by (simp add: touched_by_def touched_def)

lemma selected_math_request: "selected_class_groups math_request school = [1]"
  by code_simp

lemma selected_physics_request: "selected_class_groups physics_request school = [2]"
  by code_simp

lemma math_request_saved:
  "accepted (timetable_builder math_request school)"
  "snd (timetable_builder math_request school) = with_rows [math_mon_8 1 [1]] 2"
proof -
  note st = save_view_state [OF wf_school, of normal_slot_msg math_request
      fixed_timetable_structure, unfolded nonempty_math_request,
      OF validate_math_request keys_math_request]
  have ok: "list_all (fk_ok school) [(1, ''Mon'', (8, 0), (8, 40), 1, 7)]"
    by (simp add: fk_ok_def school_def)
  show "accepted (timetable_builder math_request school)"
    unfolding timetable_builder_save_view [OF is_save_math_request] st(2) by (rule ok)
  show "snd (timetable_builder math_request school) = with_rows [math_mon_8 1 [1]] 2"
    unfolding timetable_builder_save_view [OF is_save_math_request] st(1)
    by (simp add: ok [unfolded list_all_iff] school_def row_of_key_def math_mon_8_def
        fk_ok_def with_rows_def)
qed

lemma wf_with_rows_math: "wf_db (with_rows [math_mon_8 1 [1]] 2)"
  by (simp add: wf_db_def with_rows_def math_mon_8_def)

lemma physics_request_saved:
  "accepted (timetable_builder physics_request (with_rows [math_mon_8 1 [1]] 2))"
  "snd (timetable_builder physics_request (with_rows [math_mon_8 1 [1]] 2)) =
     with_rows [math_mon_8 1 [1], physics_mon_8 2 [2]] 3"
proof -
  let ?s = "with_rows [math_mon_8 1 [1]] 2"
  note st = save_view_state [OF wf_with_rows_math, of normal_slot_msg physics_request
      fixed_timetable_structure,
      unfolded submitted_cells_with_rows validate_with_rows nonempty_physics_request,
      OF validate_physics_request keys_physics_request]
  have ok: "list_all (fk_ok ?s) [(2, ''Mon'', (8, 0), (8, 40), 2, 7)]"
    by (simp add: fk_ok_with_rows fk_ok_def school_def)
  show "accepted (timetable_builder physics_request ?s)"
    unfolding timetable_builder_save_view [OF is_save_physics_request] st(2) by (rule ok)
  show "snd (timetable_builder physics_request ?s) =
     with_rows [math_mon_8 1 [1], physics_mon_8 2 [2]] 3"
    unfolding timetable_builder_save_view [OF is_save_physics_request] st(1)
      touched_by_with_rows touched_by_eval selected_physics_request
    using ok
    by (simp add: fk_ok_with_rows)
       (simp add: with_rows_def school_def row_of_key_def math_mon_8_def physics_mon_8_def)
qed

text \<open>
  Claim C5. Two saves of the normal builder, both accepted: the first gives class group 1
  Math with teacher 7 on Monday 08:00 to 08:40, the second, over class group 2 alone,
  gives class group 2 Physics with teacher 7 in the same slot. The table then holds both
  rows, so teacher 7 has two subjects in one slot; \<open>Timetable.clean\<close> raises on the second
  row against this table.
\<close>

theorem two_saves_double_book_a_teacher:
  "accepted (timetable_builder math_request school)
   \<and> accepted (timetable_builder physics_request (snd (timetable_builder math_request school)))
   \<and> timetable_tbl
        (snd (timetable_builder physics_request (snd (timetable_builder math_request school)))) =
      [math_mon_8 1 [1], physics_mon_8 2 [2]]
   \<and> tt_teacher_id (math_mon_8 1 [1]) = tt_teacher_id (physics_mon_8 2 [2])
   \<and> tt_day (math_mon_8 1 [1]) = tt_day (physics_mon_8 2 [2])
   \<and> tt_start_time (math_mon_8 1 [1]) = tt_start_time (physics_mon_8 2 [2])
   \<and> tt_end_time (math_mon_8 1 [1]) = tt_end_time (physics_mon_8 2 [2])
   \<and> tt_subject_fk_id (math_mon_8 1 [1]) \<noteq> tt_subject_fk_id (physics_mon_8 2 [2])
   \<and> Timetable_clean (physics_mon_8 2 [2])
        (snd (timetable_builder physics_request (snd (timetable_builder math_request school)))) =
      Some ValidationError"
  unfolding math_request_saved(2) physics_request_saved(2)
  using math_request_saved(1) physics_request_saved(1)
  by (simp add: math_mon_8_def physics_mon_8_def Timetable_clean_def with_rows_def)

section \<open>Rows outside the edit\<close>

lemma snd_respond: "snd (respond days slots req s0 (raised, err, s)) = s"
  by (simp add: respond_def split: option.splits)

lemma untouched_filter_idem:
  "filter (\<lambda>r. \<not> touched days slots cgs r) (filter (\<lambda>r. \<not> touched days slots cgs r) tbl) =
   filter (\<lambda>r. \<not> touched days slots cgs r) tbl"
  by simp

lemma save_view_untouched:
  assumes "wf_db s"
  shows "filter (\<lambda>r. \<not> touched_by structure req s r)
           (timetable_tbl (snd (save_view msg structure req s))) =
         filter (\<lambda>r. \<not> touched_by structure req s r) (timetable_tbl s)"
proof (cases "validate msg (req_POST req) (submitted_cells structure req s) s")
  case (Some m)
  then show ?thesis by (simp add: save_view_rejected(1))
next
  case None
  let ?ks = "keys_to_create (req_POST req) (submitted_cells structure req s)"
  let ?c = "clear_rows (fst structure) (snd structure) (selected_class_groups req s) s"
  have sub: "set (takeWhile (fk_ok s) ?ks) \<subseteq>
      set (keys_to_create (req_POST req)
             (grid_cells (selected_class_groups req s) (fst structure) (snd structure)))"
    using set_takeWhile_subset [of "fk_ok s" ?ks] by (simp add: submitted_cells_def)
  have "timetable_tbl (snd (save_view msg structure req s)) =
        filter (\<lambda>r. \<not> touched (fst structure) (snd structure) (selected_class_groups req s) r)
          (timetable_tbl s) @
        new_rows (next_pk s) (takeWhile (fk_ok s) ?ks)"
    unfolding save_view_validated(1) [OF None assms] db_after_def fk_ok_clear_rows
    by (simp add: clear_rows_eq)
  then show ?thesis
    unfolding touched_by_def using untouched_after_new_rows [OF sub] by simp
qed

lemma timetable_builder_db:
  "snd (timetable_builder req s) =
     (if req_method req = POST \<and> selected_class_ids req \<noteq> [] then
        if qd_get ''action'' (req_POST req) = Some ''clear''
        then clear_rows (fst fixed_timetable_structure) (snd fixed_timetable_structure)
               (selected_class_groups req s) s
        else if qd_get ''action'' (req_POST req) = Some ''save''
        then snd (save_view normal_slot_msg fixed_timetable_structure req s)
        else s
      else s)"
  by (simp add: timetable_builder_def save_view_def snd_respond case_prod_beta Let_def)

text \<open>
  Claim C8, as stated, fails for a row attached to a selected and to an unselected class
  group: the row Math, Monday 08:00, of the class groups 1 and 2 is deleted by a save
  that selects class group 1 alone and submits an empty grid, so class group 2, which
  was not in the selection, loses its entry.
\<close>

theorem shared_row_is_deleted_whole:
  "selected_class_ids (save_request [''1''] []) = [1]
   \<and> 2 \<in> set (tt_class_groups (math_mon_8 1 [1, 2]))
   \<and> timetable_tbl (with_rows [math_mon_8 1 [1, 2]] 2) = [math_mon_8 1 [1, 2]]
   \<and> accepted (timetable_builder (save_request [''1''] []) (with_rows [math_mon_8 1 [1, 2]] 2))
   \<and> timetable_tbl
        (snd (timetable_builder (save_request [''1''] []) (with_rows [math_mon_8 1 [1, 2]] 2))) =
      []"
proof -
  let ?req = "save_request [''1''] []"
  let ?s = "with_rows [math_mon_8 1 [1, 2]] 2"
  have e: "\<forall>c \<in> set cells. cell_val (req_POST ?req) c = []" for cells
    by (intro ballI cell_val_no_cell_keys) (auto simp: save_request_def)
  have sel: "selected_class_ids ?req = [1]"
    by code_simp
  have sv: "is_save ?req"
    by code_simp
  have grp: "selected_class_groups ?req ?s = [1]"
    by (simp add: selected_class_groups_def sel with_rows_def school_def)
  have sa: "save_action normal_slot_msg (fst fixed_timetable_structure)
              (snd fixed_timetable_structure) [1] (req_POST ?req) ?s =
            (None, None, clear_rows (fst fixed_timetable_structure)
                           (snd fixed_timetable_structure) [1] ?s)"
    by (rule save_action_all_empty [OF e])
  have cl: "timetable_tbl (clear_rows (fst fixed_timetable_structure)
                           (snd fixed_timetable_structure) [1] ?s) = []"
    by (simp add: clear_rows_eq touched_def in_scope_def fixed_timetable_structure_def
        with_rows_def math_mon_8_def)
  have "accepted (timetable_builder ?req ?s)"
    unfolding timetable_builder_save_view [OF sv] save_view_def grp sa
    by (simp add: accepted_def respond_def)
  moreover have "timetable_tbl (snd (timetable_builder ?req ?s)) = []"
    unfolding timetable_builder_save_view [OF sv] save_view_def grp sa snd_respond
    by (rule cl)
  ultimately show ?thesis
    using sel by (simp add: math_mon_8_def with_rows_def)
qed

text \<open>
  Claim C8, as the code has it. Whatever the request to the normal builder (save, clear
  or any other), the rows that are not touched stay as they were and in their order, and
  no untouched row is added: a row is touched when its day and start time are a day and
  a start time of the structure and one of its class groups is a selected class group.
  So every row that has none of the selected class groups attached is unchanged; a
  touched row is deleted as a whole, also for its class groups that are not selected.
\<close>

theorem untouched_rows_are_unchanged:
  assumes "wf_db s"
  shows "filter (\<lambda>r. \<not> touched_by fixed_timetable_structure req s r)
           (timetable_tbl (snd (timetable_builder req s))) =
         filter (\<lambda>r. \<not> touched_by fixed_timetable_structure req s r) (timetable_tbl s)
       \<and> (\<forall>r \<in> set (timetable_tbl s).
            set (tt_class_groups r) \<inter> set (selected_class_groups req s) = {} \<longrightarrow>
            r \<in> set (timetable_tbl (snd (timetable_builder req s))))"
proof -
  have 1: "filter (\<lambda>r. \<not> touched_by fixed_timetable_structure req s r)
           (timetable_tbl (snd (timetable_builder req s))) =
         filter (\<lambda>r. \<not> touched_by fixed_timetable_structure req s r) (timetable_tbl s)"
    unfolding timetable_builder_db
    using save_view_untouched [OF assms, of fixed_timetable_structure req normal_slot_msg]
    by (simp add: clear_rows_eq touched_by_def)
  have 2: "r \<in> set (timetable_tbl (snd (timetable_builder req s)))"
    if "r \<in> set (timetable_tbl s)"
      and "set (tt_class_groups r) \<inter> set (selected_class_groups req s) = {}" for r
  proof -
    from that(2) have "\<not> touched_by fixed_timetable_structure req s r"
      by (auto simp: touched_by_def touched_def)
    with that(1) have "r \<in> set (filter (\<lambda>r. \<not> touched_by fixed_timetable_structure req s r)
                                  (timetable_tbl s))"
      by simp
    then have "r \<in> set (filter (\<lambda>r. \<not> touched_by fixed_timetable_structure req s r)
                           (timetable_tbl (snd (timetable_builder req s))))"
      by (simp only: 1)
    then show ?thesis by simp
  qed
  from 1 2 show ?thesis by blast
qed

lemma wf_with_rows_c8: "wf_db (with_rows [math_mon_8 1 [3], physics_mon_8 2 [1]] 3)"
  by (simp add: wf_db_def with_rows_def math_mon_8_def physics_mon_8_def)

theorem untouched_rows_are_unchanged_witness:
  "filter (\<lambda>r. \<not> touched_by fixed_timetable_structure joint_request
                   (with_rows [math_mon_8 1 [3], physics_mon_8 2 [1]] 3) r)
     (timetable_tbl (snd (timetable_builder joint_request
                            (with_rows [math_mon_8 1 [3], physics_mon_8 2 [1]] 3)))) =
   [math_mon_8 1 [3]]
   \<and> math_mon_8 1 [3] \<in> set (timetable_tbl (snd (timetable_builder joint_request
                            (with_rows [math_mon_8 1 [3], physics_mon_8 2 [1]] 3))))"
proof -
  let ?s = "with_rows [math_mon_8 1 [3], physics_mon_8 2 [1]] 3"
  have g0: "selected_class_groups joint_request school = [1, 2]"
    by code_simp
  have grp: "selected_class_groups joint_request ?s = [1, 2]"
    unfolding g0 [symmetric] by (rule selected_class_groups_cong) (simp add: with_rows_def)
  have f: "filter (\<lambda>r. \<not> touched_by fixed_timetable_structure joint_request ?s r)
             (timetable_tbl ?s) = [math_mon_8 1 [3]]"
    unfolding touched_by_with_rows touched_by_eval g0
    by (simp add: in_scope_def fixed_timetable_structure_def
        with_rows_def math_mon_8_def physics_mon_8_def)
  have m: "math_mon_8 1 [3] \<in> set (timetable_tbl ?s)"
    by (simp add: with_rows_def)
  have d: "set (tt_class_groups (math_mon_8 1 [3])) \<inter>
           set (selected_class_groups joint_request ?s) = {}"
    unfolding grp by (simp add: math_mon_8_def)
  from untouched_rows_are_unchanged [OF wf_with_rows_c8, of joint_request] f m d
  show ?thesis by auto
qed

section \<open>A save that fails partway\<close>

lemma handle_request_not_atomic: "handle_request False view req s = view req s"
  by (cases "view req s"; cases "fst (view req s)") (auto simp: handle_request_def)

lemma fst_handle_request: "fst (handle_request atomic view req s) = fst (view req s)"
  by (cases "view req s"; cases "fst (view req s)") (auto simp: handle_request_def)

lemma handle_request_atomic_raised:
  "fst (view req s) = Raised e \<Longrightarrow> snd (handle_request True view req s) = s"
  by (cases "view req s") (auto simp: handle_request_def)

lemma takeWhile_not_all: "\<not> list_all P xs \<Longrightarrow> takeWhile P xs \<noteq> xs"
  by (simp add: takeWhile_eq_all_conv list_all_iff)

lemma save_view_raised:
  assumes "fst (save_view msg structure req s) = Raised e" and "wf_db s"
  shows "e = IntegrityError"
    and "timetable_tbl (snd (save_view msg structure req s)) =
           filter (\<lambda>r. \<not> touched_by structure req s r) (timetable_tbl s) @
           new_rows (next_pk s)
             (takeWhile (fk_ok s)
                (keys_to_create (req_POST req) (submitted_cells structure req s)))"
    and "takeWhile (fk_ok s) (keys_to_create (req_POST req) (submitted_cells structure req s))
           \<noteq> keys_to_create (req_POST req) (submitted_cells structure req s)"
proof -
  let ?ks = "keys_to_create (req_POST req) (submitted_cells structure req s)"
  have v: "validate msg (req_POST req) (submitted_cells structure req s) s = None"
  proof (cases "validate msg (req_POST req) (submitted_cells structure req s) s")
    case None
    then show ?thesis .
  next
    case (Some m)
    then have "fst (save_view msg structure req s) =
        Rendered \<lparr>error_message = Some m,
          current = build_current (fst structure) (snd structure) (selected_class_ids req)
                      (selected_class_groups req s) s\<rparr>"
      by (simp add: save_view_def submitted_cells_def save_action_rejected respond_def)
    with assms(1) show ?thesis by simp
  qed
  from save_view_validated(3) [OF v assms(2)] assms(1) have bad: "\<not> list_all (fk_ok s) ?ks"
    by blast
  show "takeWhile (fk_ok s) ?ks \<noteq> ?ks"
    by (rule takeWhile_not_all [OF bad])
  show "timetable_tbl (snd (save_view msg structure req s)) =
           filter (\<lambda>r. \<not> touched_by structure req s r) (timetable_tbl s) @
           new_rows (next_pk s) (takeWhile (fk_ok s) ?ks)"
    unfolding save_view_validated(1) [OF v assms(2)] db_after_def fk_ok_clear_rows
    by (simp add: clear_rows_eq touched_by_def)
  from assms(1) v bad show "e = IntegrityError"
    by (simp add: save_view_def submitted_cells_def save_action_accepted [OF _ assms(2)]
        respond_def exn_after_def)
qed

lemma is_save_missing_teacher_request: "is_save missing_teacher_request"
  by code_simp

lemma is_save_remedial_missing_teacher_request: "is_save remedial_missing_teacher_request"
  by code_simp

lemma nonempty_missing_teacher_request:
  "nonempty_cells (req_POST missing_teacher_request)
     (submitted_cells fixed_timetable_structure missing_teacher_request school) =
   [(1, ''Mon'', (8, 0), (8, 40), 1), (1, ''Mon'', (8, 40), (9, 20), 1)]"
  by code_simp

lemma nonempty_remedial_missing_teacher_request:
  "nonempty_cells (req_POST remedial_missing_teacher_request)
     (submitted_cells fixed_remedial_structure remedial_missing_teacher_request school) =
   [(1, ''Sat'', (7, 0), (8, 0), 1), (1, ''Sat'', (8, 0), (9, 0), 1)]"
  by code_simp

lemma validate_missing_teacher_request:
  "validate normal_slot_msg (req_POST missing_teacher_request)
     [(1, ''Mon'', (8, 0), (8, 40), 1), (1, ''Mon'', (8, 40), (9, 20), 1)] school = None"
  by code_simp

lemma validate_remedial_missing_teacher_request:
  "validate remedial_slot_msg (req_POST remedial_missing_teacher_request)
     [(1, ''Sat'', (7, 0), (8, 0), 1), (1, ''Sat'', (8, 0), (9, 0), 1)] school = None"
  by code_simp

lemma keys_missing_teacher_request:
  "keys_to_create (req_POST missing_teacher_request)
     [(1, ''Mon'', (8, 0), (8, 40), 1), (1, ''Mon'', (8, 40), (9, 20), 1)] =
   [(1, ''Mon'', (8, 0), (8, 40), 1, 7), (1, ''Mon'', (8, 40), (9, 20), 1, 99)]"
  by code_simp

lemma keys_remedial_missing_teacher_request:
  "keys_to_create (req_POST remedial_missing_teacher_request)
     [(1, ''Sat'', (7, 0), (8, 0), 1), (1, ''Sat'', (8, 0), (9, 0), 1)] =
   [(1, ''Sat'', (7, 0), (8, 0), 1, 7), (1, ''Sat'', (8, 0), (9, 0), 1, 99)]"
  by code_simp

lemma wf_with_rows_physics: "wf_db (with_rows [physics_mon_8 1 [1]] 2)"
  by (simp add: wf_db_def with_rows_def physics_mon_8_def)

lemma selected_missing_teacher_request:
  "selected_class_groups missing_teacher_request school = [1]"
  by code_simp

lemma selected_remedial_missing_teacher_request:
  "selected_class_groups remedial_missing_teacher_request school = [1]"
  by code_simp

lemma missing_teacher_raised:
  "fst (timetable_builder missing_teacher_request (with_rows [physics_mon_8 1 [1]] 2)) =
     Raised IntegrityError"
  "timetable_tbl
     (snd (timetable_builder missing_teacher_request (with_rows [physics_mon_8 1 [1]] 2))) =
     [math_mon_8 2 [1]]"
proof -
  let ?s = "with_rows [physics_mon_8 1 [1]] 2"
  note st = save_view_state [OF wf_with_rows_physics, of normal_slot_msg missing_teacher_request
      fixed_timetable_structure,
      unfolded submitted_cells_with_rows validate_with_rows nonempty_missing_teacher_request,
      OF validate_missing_teacher_request keys_missing_teacher_request]
  have bad: "\<not> list_all (fk_ok ?s)
      [(1, ''Mon'', (8, 0), (8, 40), 1, 7), (1, ''Mon'', (8, 40), (9, 20), 1, 99)]"
    by (simp add: fk_ok_with_rows fk_ok_def school_def)
  with st(3) obtain e where
    e: "fst (save_view normal_slot_msg fixed_timetable_structure missing_teacher_request ?s) =
        Raised e"
    by blast
  from save_view_raised(1) [OF e wf_with_rows_physics] e
  show "fst (timetable_builder missing_teacher_request ?s) = Raised IntegrityError"
    by (simp only: timetable_builder_save_view [OF is_save_missing_teacher_request])
  show "timetable_tbl (snd (timetable_builder missing_teacher_request ?s)) = [math_mon_8 2 [1]]"
    unfolding timetable_builder_save_view [OF is_save_missing_teacher_request] st(1)
      touched_by_with_rows touched_by_eval selected_missing_teacher_request
    by (simp add: fk_ok_with_rows)
       (simp add: with_rows_def school_def row_of_key_def math_mon_8_def physics_mon_8_def
         fk_ok_def in_scope_def fixed_timetable_structure_def)
qed

lemma remedial_missing_teacher_raised:
  "fst (remedial_timetable_builder remedial_missing_teacher_request school) =
     Raised IntegrityError"
  "timetable_tbl (snd (remedial_timetable_builder remedial_missing_teacher_request school)) =
     [math_sat_7 1 [1]]"
proof -
  note st = save_view_state [OF wf_school, of remedial_slot_msg
      remedial_missing_teacher_request fixed_remedial_structure,
      unfolded nonempty_remedial_missing_teacher_request,
      OF validate_remedial_missing_teacher_request keys_remedial_missing_teacher_request]
  have bad: "\<not> list_all (fk_ok school)
      [(1, ''Sat'', (7, 0), (8, 0), 1, 7), (1, ''Sat'', (8, 0), (9, 0), 1, 99)]"
    by (simp add: fk_ok_def school_def)
  with st(3) obtain e where
    e: "fst (save_view remedial_slot_msg fixed_remedial_structure
               remedial_missing_teacher_request school) = Raised e"
    by blast
  from save_view_raised(1) [OF e wf_school] e
  show "fst (remedial_timetable_builder remedial_missing_teacher_request school) =
          Raised IntegrityError"
    by (simp only: remedial_timetable_builder_save_view
          [OF is_save_remedial_missing_teacher_request])
  show "timetable_tbl (snd (remedial_timetable_builder remedial_missing_teacher_request school))
          = [math_sat_7 1 [1]]"
    unfolding remedial_timetable_builder_save_view
        [OF is_save_remedial_missing_teacher_request] st(1)
    by (simp add: school_def row_of_key_def math_sat_7_def fk_ok_def)
qed

text \<open>
  Claim C4, as stated, fails: the views open no transaction. With the framework's
  request transactions off, a save for class group 1 whose grid passes the validation
  and whose second row names a teacher that does not exist ends in the exception of the
  database; the Physics row that class group 1 had is deleted, the first new row stays
  and the second is missing.
\<close>

theorem failed_save_leaves_partial_grid:
  "validate normal_slot_msg (req_POST missing_teacher_request)
     (submitted_cells fixed_timetable_structure missing_teacher_request
        (with_rows [physics_mon_8 1 [1]] 2))
     (with_rows [physics_mon_8 1 [1]] 2) = None
   \<and> timetable_tbl (with_rows [physics_mon_8 1 [1]] 2) = [physics_mon_8 1 [1]]
   \<and> fst (handle_request False timetable_builder missing_teacher_request
            (with_rows [physics_mon_8 1 [1]] 2)) = Raised IntegrityError
   \<and> timetable_tbl (snd (handle_request False timetable_builder missing_teacher_request
                           (with_rows [physics_mon_8 1 [1]] 2))) = [math_mon_8 2 [1]]
   \<and> keys_to_create (req_POST missing_teacher_request)
        (submitted_cells fixed_timetable_structure missing_teacher_request
           (with_rows [physics_mon_8 1 [1]] 2)) =
      [(1, ''Mon'', (8, 0), (8, 40), 1, 7), (1, ''Mon'', (8, 40), (9, 20), 1, 99)]"
proof -
  have v: "validate normal_slot_msg (req_POST missing_teacher_request)
     (submitted_cells fixed_timetable_structure missing_teacher_request
        (with_rows [physics_mon_8 1 [1]] 2))
     (with_rows [physics_mon_8 1 [1]] 2) = None"
    unfolding submitted_cells_with_rows validate_with_rows
    by (subst validate_skip)
       (simp only: nonempty_missing_teacher_request validate_missing_teacher_request)
  have k: "keys_to_create (req_POST missing_teacher_request)
        (submitted_cells fixed_timetable_structure missing_teacher_request
           (with_rows [physics_mon_8 1 [1]] 2)) =
      [(1, ''Mon'', (8, 0), (8, 40), 1, 7), (1, ''Mon'', (8, 40), (9, 20), 1, 99)]"
    unfolding submitted_cells_with_rows
    by (subst keys_to_create_skip)
       (simp only: nonempty_missing_teacher_request keys_missing_teacher_request)
  show ?thesis
    unfolding handle_request_not_atomic
    using v k missing_teacher_raised by (simp add: with_rows_def)
qed

text \<open>
  Claim C4, as the code has it. The builders wrap the delete and the recreation in no
  transaction of their own. When the framework wraps the request in one (the setting
  \<open>ATOMIC_REQUESTS\<close>), a save that ends in an exception leaves the database as it was.
  Otherwise the request handler adds nothing to the view: an accepted save has replaced
  the touched rows by a row for every key of the grid, and a save that ends in an
  exception, which is the database's \<open>IntegrityError\<close>, has deleted the touched rows and
  has created the rows of the keys before the first key whose subject or teacher does
  not exist, which are not all the keys.
\<close>

theorem save_is_atomic_only_with_atomic_requests:
  assumes "is_save req" and "wf_db s"
  shows "(\<forall>e. fst (handle_request True timetable_builder req s) = Raised e \<longrightarrow>
              snd (handle_request True timetable_builder req s) = s)
       \<and> handle_request False timetable_builder req s = timetable_builder req s
       \<and> (accepted (timetable_builder req s) \<longrightarrow>
            timetable_tbl (snd (timetable_builder req s)) =
              filter (\<lambda>r. \<not> touched_by fixed_timetable_structure req s r) (timetable_tbl s) @
              new_rows (next_pk s)
                (keys_to_create (req_POST req) (submitted_cells fixed_timetable_structure req s)))
       \<and> (\<forall>e. fst (timetable_builder req s) = Raised e \<longrightarrow>
              e = IntegrityError
            \<and> timetable_tbl (snd (timetable_builder req s)) =
                filter (\<lambda>r. \<not> touched_by fixed_timetable_structure req s r) (timetable_tbl s) @
                new_rows (next_pk s)
                  (takeWhile (fk_ok s)
                     (keys_to_create (req_POST req)
                        (submitted_cells fixed_timetable_structure req s)))
            \<and> takeWhile (fk_ok s)
                 (keys_to_create (req_POST req) (submitted_cells fixed_timetable_structure req s))
               \<noteq> keys_to_create (req_POST req)
                    (submitted_cells fixed_timetable_structure req s))
       \<and> (\<forall>e. fst (handle_request True remedial_timetable_builder req s) = Raised e \<longrightarrow>
              snd (handle_request True remedial_timetable_builder req s) = s)
       \<and> handle_request False remedial_timetable_builder req s = remedial_timetable_builder req s
       \<and> (accepted (remedial_timetable_builder req s) \<longrightarrow>
            timetable_tbl (snd (remedial_timetable_builder req s)) =
              filter (\<lambda>r. \<not> touched_by fixed_remedial_structure req s r) (timetable_tbl s) @
              new_rows (next_pk s)
                (keys_to_create (req_POST req) (submitted_cells fixed_remedial_structure req s)))
       \<and> (\<forall>e. fst (remedial_timetable_builder req s) = Raised e \<longrightarrow>
              e = IntegrityError
            \<and> timetable_tbl (snd (remedial_timetable_builder req s)) =
                filter (\<lambda>r. \<not> touched_by fixed_remedial_structure req s r) (timetable_tbl s) @
                new_rows (next_pk s)
                  (takeWhile (fk_ok s)
                     (keys_to_create (req_POST req)
                        (submitted_cells fixed_remedial_structure req s)))
            \<and> takeWhile (fk_ok s)
                 (keys_to_create (req_POST req) (submitted_cells fixed_remedial_structure req s))
               \<noteq> keys_to_create (req_POST req)
                    (submitted_cells fixed_remedial_structure req s))"
proof -
  have a: "snd (handle_request True view req s) = s"
    if "fst (handle_request True view req s) = Raised e" for view e
    using that handle_request_atomic_raised [of view req s e]
    by (simp add: fst_handle_request)
  note n = timetable_builder_save_view [OF assms(1)]
  note r = remedial_timetable_builder_save_view [OF assms(1)]
  show ?thesis
    unfolding handle_request_not_atomic
    using a [of timetable_builder] a [of remedial_timetable_builder]
      accepted_save_table(1) [OF _ assms(2), of normal_slot_msg fixed_timetable_structure req]
      accepted_save_table(1) [OF _ assms(2), of remedial_slot_msg fixed_remedial_structure req]
      save_view_raised [OF _ assms(2), of normal_slot_msg fixed_timetable_structure req]
      save_view_raised [OF _ assms(2), of remedial_slot_msg fixed_remedial_structure req]
    unfolding n r
    by (intro conjI allI impI) (assumption | rule refl | blast)+
qed

theorem save_is_atomic_only_with_atomic_requests_witness:
  "fst (handle_request True timetable_builder missing_teacher_request
          (with_rows [physics_mon_8 1 [1]] 2)) = Raised IntegrityError
   \<and> snd (handle_request True timetable_builder missing_teacher_request
          (with_rows [physics_mon_8 1 [1]] 2)) = with_rows [physics_mon_8 1 [1]] 2
   \<and> timetable_tbl (snd (handle_request False timetable_builder missing_teacher_request
          (with_rows [physics_mon_8 1 [1]] 2))) = [math_mon_8 2 [1]]
   \<and> timetable_tbl (snd (timetable_builder joint_request school)) =
        [math_mon_8 1 [1], math_mon_8 2 [2]]
   \<and> fst (handle_request True remedial_timetable_builder remedial_missing_teacher_request
          school) = Raised IntegrityError
   \<and> snd (handle_request True remedial_timetable_builder remedial_missing_teacher_request
          school) = school
   \<and> timetable_tbl (snd (handle_request False remedial_timetable_builder
          remedial_missing_teacher_request school)) = [math_sat_7 1 [1]]"
proof -
  let ?s = "with_rows [physics_mon_8 1 [1]] 2"
  note t1 = save_is_atomic_only_with_atomic_requests
      [OF is_save_missing_teacher_request wf_with_rows_physics]
  note t2 = save_is_atomic_only_with_atomic_requests
      [OF is_save_remedial_missing_teacher_request wf_school]
  note t3 = save_is_atomic_only_with_atomic_requests
      [OF is_save_joint_request wf_school]
  have f1: "fst (handle_request True timetable_builder missing_teacher_request ?s) =
            Raised IntegrityError"
    by (simp only: fst_handle_request missing_teacher_raised(1))
  have f2: "fst (handle_request True remedial_timetable_builder
                   remedial_missing_teacher_request school) = Raised IntegrityError"
    by (simp only: fst_handle_request remedial_missing_teacher_raised(1))
  from t1 f1 have 1: "snd (handle_request True timetable_builder missing_teacher_request ?s) =
                      ?s"
    by blast
  from t2 f2 have 2: "snd (handle_request True remedial_timetable_builder
                             remedial_missing_teacher_request school) = school"
    by blast
  from t1 have 3: "handle_request False timetable_builder missing_teacher_request ?s =
                   timetable_builder missing_teacher_request ?s"
    by blast
  from t2 have 4: "handle_request False remedial_timetable_builder
                     remedial_missing_teacher_request school =
                   remedial_timetable_builder remedial_missing_teacher_request school"
    by blast
  have k2: "keys_to_create (req_POST joint_request)
        (submitted_cells fixed_timetable_structure joint_request school) =
      [(1, ''Mon'', (8, 0), (8, 40), 1, 7), (2, ''Mon'', (8, 0), (8, 40), 1, 7)]"
    by (subst keys_to_create_skip) (simp only: nonempty_joint_request keys_joint_request)
  from t3 joint_request_saved(1)
  have "timetable_tbl (snd (timetable_builder joint_request school)) =
          filter (\<lambda>r. \<not> touched_by fixed_timetable_structure joint_request school r)
            (timetable_tbl school) @
          new_rows (next_pk school)
            (keys_to_create (req_POST joint_request)
               (submitted_cells fixed_timetable_structure joint_request school))"
    by blast
  then have 5: "timetable_tbl (snd (timetable_builder joint_request school)) =
        [math_mon_8 1 [1], math_mon_8 2 [2]]"
    unfolding k2 by (simp add: school_def row_of_key_def math_mon_8_def)
  show ?thesis
    unfolding 3 4 using f1 f2 1 2 5 missing_teacher_raised(2) remedial_missing_teacher_raised(2)
    by (intro conjI)
qed

end
